theory Spec2Isabelle
  imports Main "HOL-Library.Word"
begin

section \<open>Data model of the authentication module\<close>

text \<open>
  The module under study is the login/registration code of the CSplan client
  (classes \<open>LoginActions\<close> and \<open>RegisterActions\<close>). Byte arrays (\<open>Uint8Array\<close>) are
  lists of 8-bit words; \<open>slice(0, n)\<close> is \<open>take n\<close> and \<open>slice(n)\<close> is \<open>drop n\<close>, both of
  which clamp at the end of the array as the JavaScript methods do.
\<close>

type_synonym bytes = "8 word list"

record Argon2HashParams =
  hp_type :: string
  timeCost :: nat
  memoryCost :: nat
  threads :: nat
  saltLen :: nat

record Challenge =
  challenge_id :: string
  challenge_data :: string
  challenge_salt :: string
  challenge_hashParams :: Argon2HashParams

record SolvedChallenge =
  solved_data :: string

record ChallengeRequest =
  request_email :: string
  request_totp :: "nat option"

record ChallengeResponse =
  response_id :: string
  CSRFtoken :: string

record RegisterRequest =
  register_email :: string
  register_key :: string
  register_hashParams :: Argon2HashParams

record AuthUser =
  email :: string
  password :: string
  totp :: "nat option"

text \<open>
  \<open>MasterKeys\<close> and \<open>ErrorResponse\<close> are declared outside the sources studied here;
  their members are the ones the module reads and writes. A \<open>message\<close> that is absent from
  an error body is \<open>None\<close>.
\<close>

record MasterKeys =
  keys_publicKey :: string
  keys_privateKey :: string
  keys_hashSalt :: string
  keys_hashParams :: Argon2HashParams

record ErrorResponse =
  message :: "string option"

datatype AuthConditions = Success | TOTPRequired

text \<open>Thrown values: \<open>new Error(msg)\<close> of the module itself, and whatever the platform
  and the libraries throw.\<close>

datatype error = Error string | TypeError string | SyntaxError string | DOMException string

subsection \<open>Network\<close>

datatype request_body =
    ChallengeRequestBody ChallengeRequest
  | SolvedChallengeBody SolvedChallenge
  | RegisterRequestBody RegisterRequest
  | MasterKeysBody MasterKeys

record request =
  url :: string
  http_method :: string
  headers :: "(string \<times> string) list"
  credentials :: "string option"
  body :: "request_body option"

text \<open>
  What \<open>res.json()\<close> finds in a response: a JSON object of one of the shapes of the
  server's interface (an object without a \<open>message\<close> member is \<open>JError\<close> with
  \<open>message = None\<close>), the JSON value \<open>null\<close>, or a body that is not JSON at all.
\<close>

datatype json =
    JError ErrorResponse
  | JChallenge Challenge
  | JChallengeResponse ChallengeResponse
  | JMasterKeys MasterKeys
  | JNull
  | NotJSON

record response =
  status :: nat
  json :: json

subsection \<open>Argon2 worker\<close>

datatype Argon2_Actions = LoadArgon2 | Hash2i

record Argon2_HashBody =
  hash_password :: string
  hash_salt :: bytes
  hash_timeCost :: nat
  hash_memoryCost :: nat
  hash_threads :: nat
  hashLen :: nat

record Argon2_Request =
  action :: Argon2_Actions
  hash_body :: Argon2_HashBody

record Argon2_Response =
  code :: int
  response_body :: "bytes option"

definition ARGON2_OK :: int where
  "ARGON2_OK = 0"

subsection \<open>Keys and local stores\<close>

text \<open>Key objects of the platform are opaque handles.\<close>

datatype CryptoKey = CryptoKey nat

datatype Algorithms = AES_GCM

record AesCtrParams =
  ctr_name :: string
  counter :: bytes
  ctr_length :: nat

record User =
  user_email :: string
  user_id :: string

record UserStore =
  user :: User
  isLoggedIn :: bool

record KeysEntry =
  entry_id :: string
  entry_publicKey :: CryptoKey
  entry_privateKey :: CryptoKey

datatype subtle_call =
    ImportKey string "bytes option" string bool "string list"
  | Decrypt AesCtrParams CryptoKey bytes

subsection \<open>The world the module runs in\<close>

text \<open>
  The two fields of the \<open>LoginActions\<close> object, the browser's stores, and the
  effects the module has on its surroundings, each as the list of calls made so far:
  \<open>messages\<close> for \<open>onMessage\<close>, \<open>posted\<close> for \<open>worker.postMessage\<close>, \<open>sent\<close> for
  \<open>fetch\<close>, \<open>subtle_calls\<close> for \<open>crypto.subtle\<close>, \<open>console\<close> for \<open>console.log\<close>.
\<close>

record world =
  hashParams :: Argon2HashParams
  authKeyMaterial :: "bytes option"
  localStorage :: "string \<rightharpoonup> string"
  userStore :: UserStore
  idb :: "(string \<times> string) \<rightharpoonup> KeysEntry"
  messages :: "string list"
  posted :: "Argon2_Request list"
  sent :: "request list"
  subtle_calls :: "subtle_call list"
  console :: "string list"

text \<open>
  What lies outside the module is a parameter: the server behind \<open>fetch\<close>, the
  Argon2 worker (the message that answers a posted request), the \<open>cs-crypto\<close> library
  and the platform's \<open>crypto.subtle\<close>. A call that can reject returns a sum.
  A byte array that may be \<open>null\<close> or \<open>undefined\<close> at run time is a \<open>bytes option\<close>.
\<close>

record env =
  NODE_ENV :: string
  server :: "request \<Rightarrow> error + response"
  worker_reply :: "Argon2_Request \<Rightarrow> Argon2_Response"
  encode :: "bytes \<Rightarrow> string"
  decode :: "string \<Rightarrow> error + bytes"
  ABconcat :: "bytes \<Rightarrow> bytes option \<Rightarrow> error + bytes"
  importKey :: "string \<Rightarrow> bytes option \<Rightarrow> string \<Rightarrow> bool \<Rightarrow> string list \<Rightarrow> error + CryptoKey"
  decrypt :: "AesCtrParams \<Rightarrow> CryptoKey \<Rightarrow> bytes \<Rightarrow> error + bytes"
  aes_importKeyMaterial :: "bytes option \<Rightarrow> Algorithms \<Rightarrow> error + CryptoKey"
  rsa_generateKeypair :: "nat \<Rightarrow> error + CryptoKey \<times> CryptoKey"
  rsa_exportPublicKey :: "CryptoKey \<Rightarrow> error + string"
  rsa_importPublicKey :: "string \<Rightarrow> error + CryptoKey"
  rsa_wrapPrivateKey :: "CryptoKey \<Rightarrow> CryptoKey \<Rightarrow> error + string"
  rsa_unwrapPrivateKey :: "string \<Rightarrow> CryptoKey \<Rightarrow> error + CryptoKey"

section \<open>Sequencing of effects\<close>

text \<open>An asynchronous function is a state transformer that either returns a value or
  throws; what it did before throwing stays done.\<close>

type_synonym 'a io = "world \<Rightarrow> (error + 'a) \<times> world"

definition ret :: "'a \<Rightarrow> 'a io" where
  "ret x = (\<lambda>s. (Inr x, s))"

definition throw :: "error \<Rightarrow> 'a io" where
  "throw e = (\<lambda>s. (Inl e, s))"

definition lift :: "error + 'a \<Rightarrow> 'a io" where
  "lift r = (\<lambda>s. (r, s))"

definition bind :: "'a io \<Rightarrow> ('a \<Rightarrow> 'b io) \<Rightarrow> 'b io" where
  "bind m f = (\<lambda>s. case m s of (Inl e, s') \<Rightarrow> (Inl e, s') | (Inr x, s') \<Rightarrow> f x s')"

definition onMessage :: "string \<Rightarrow> unit io" where
  "onMessage msg = (\<lambda>s. (Inr (), s\<lparr>messages := messages s @ [msg]\<rparr>))"

definition console_log :: "string \<Rightarrow> unit io" where
  "console_log msg = (\<lambda>s. (Inr (), s\<lparr>console := console s @ [msg]\<rparr>))"

definition fetch :: "env \<Rightarrow> request \<Rightarrow> response io" where
  "fetch env req = (\<lambda>s. (server env req, s\<lparr>sent := sent s @ [req]\<rparr>))"

definition subtle_importKey ::
  "env \<Rightarrow> string \<Rightarrow> bytes option \<Rightarrow> string \<Rightarrow> bool \<Rightarrow> string list \<Rightarrow> CryptoKey io" where
  "subtle_importKey env format keyData algorithm extractable usages =
     (\<lambda>s. (importKey env format keyData algorithm extractable usages,
           s\<lparr>subtle_calls := subtle_calls s @ [ImportKey format keyData algorithm extractable usages]\<rparr>))"

definition subtle_decrypt :: "env \<Rightarrow> AesCtrParams \<Rightarrow> CryptoKey \<Rightarrow> bytes \<Rightarrow> bytes io" where
  "subtle_decrypt env params key data =
     (\<lambda>s. (decrypt env params key data,
           s\<lparr>subtle_calls := subtle_calls s @ [Decrypt params key data]\<rparr>))"

text \<open>Reads and writes of the object's two fields.\<close>

definition get_hashParams :: "Argon2HashParams io" where
  "get_hashParams = (\<lambda>s. (Inr (hashParams s), s))"

definition set_hashParams :: "Argon2HashParams \<Rightarrow> unit io" where
  "set_hashParams params = (\<lambda>s. (Inr (), s\<lparr>hashParams := params\<rparr>))"

definition set_saltLen :: "nat \<Rightarrow> unit io" where
  "set_saltLen n = (\<lambda>s. (Inr (), s\<lparr>hashParams := (hashParams s)\<lparr>saltLen := n\<rparr>\<rparr>))"

definition get_authKeyMaterial :: "bytes option io" where
  "get_authKeyMaterial = (\<lambda>s. (Inr (authKeyMaterial s), s))"

definition set_authKeyMaterial :: "bytes option \<Rightarrow> unit io" where
  "set_authKeyMaterial material = (\<lambda>s. (Inr (), s\<lparr>authKeyMaterial := material\<rparr>))"

definition localStorage_getItem :: "string \<Rightarrow> string option io" where
  "localStorage_getItem k = (\<lambda>s. (Inr (localStorage s k), s))"

definition localStorage_setItem :: "string \<Rightarrow> string \<Rightarrow> unit io" where
  "localStorage_setItem k v = (\<lambda>s. (Inr (), s\<lparr>localStorage := (localStorage s)(k \<mapsto> v)\<rparr>))"

text \<open>Modelled from the spec: \<open>userStore.login\<close> (module \<open>stores/user\<close>) lies outside
  the sources studied here. The spec has it mark the local identity as logged in, and the
  module reads the identity back as \<open>get(userStore).user.id\<close>.\<close>

definition userStore_login :: "User \<Rightarrow> unit io" where
  "userStore_login u = (\<lambda>s. (Inr (), s\<lparr>userStore := \<lparr>user = u, isLoggedIn = True\<rparr>\<rparr>))"

definition get_userStore :: "UserStore io" where
  "get_userStore = (\<lambda>s. (Inr (userStore s), s))"

text \<open>Modelled from the spec: \<open>db.addToStore\<close> (module \<open>db\<close>) lies outside the sources
  studied here. The spec has the decrypted keypair cached locally, keyed by user identity;
  \<open>getDB\<close> creates the object store \<open>keys\<close> with key path \<open>id\<close>.\<close>

definition db_addToStore :: "string \<Rightarrow> KeysEntry \<Rightarrow> unit io" where
  "db_addToStore storeName entry =
     (\<lambda>s. (Inr (), s\<lparr>idb := (idb s)((storeName, entry_id entry) \<mapsto> entry)\<rparr>))"

section \<open>The module\<close>

definition route :: "env \<Rightarrow> string \<Rightarrow> string" where
  "route env path =
     (if NODE_ENV env = ''development'' then ''http://localhost:3030/api'' @ path
      else ''https://api.csplan.co'' @ path)"

definition AUTHKEY_SIZE :: nat where
  "AUTHKEY_SIZE = 32"

definition CSRF_TOKEN_KEY :: string where
  "CSRF_TOKEN_KEY = ''CSRF-Token''"

text \<open>\<open>a || b\<close> on a possibly absent string: the empty string is falsy too.\<close>

definition or_else :: "string option \<Rightarrow> string \<Rightarrow> string" where
  "or_else m fallback = (case m of None \<Rightarrow> fallback | Some msg \<Rightarrow> if msg = [] then fallback else msg)"

text \<open>
  \<open>await res.json()\<close> read at one of the declared types. On a body that is not JSON the
  promise of \<open>res.json()\<close> rejects with a \<open>SyntaxError\<close>. Read as an \<open>ErrorResponse\<close>, an
  object of another shape has no \<open>message\<close> member, and \<open>null\<close> makes the read of
  \<open>err.message\<close> throw a \<open>TypeError\<close>. Read as a payload, \<open>null\<close> makes the first member
  read throw a \<open>TypeError\<close>; an object of another shape is outside the server's interface,
  and the model stops there with a \<open>TypeError\<close> as well.
\<close>

definition as_ErrorResponse :: "json \<Rightarrow> error + ErrorResponse" where
  "as_ErrorResponse j =
     (case j of
        JError err \<Rightarrow> Inr err
      | NotJSON \<Rightarrow> Inl (SyntaxError ''Unexpected token in JSON'')
      | JNull \<Rightarrow> Inl (TypeError ''Cannot read properties of null'')
      | _ \<Rightarrow> Inr \<lparr>message = None\<rparr>)"

definition as_Challenge :: "json \<Rightarrow> error + Challenge" where
  "as_Challenge j =
     (case j of
        JChallenge c \<Rightarrow> Inr c
      | NotJSON \<Rightarrow> Inl (SyntaxError ''Unexpected token in JSON'')
      | JNull \<Rightarrow> Inl (TypeError ''Cannot read properties of null'')
      | _ \<Rightarrow> Inl (TypeError ''not a Challenge''))"

definition as_ChallengeResponse :: "json \<Rightarrow> error + ChallengeResponse" where
  "as_ChallengeResponse j =
     (case j of
        JChallengeResponse r \<Rightarrow> Inr r
      | NotJSON \<Rightarrow> Inl (SyntaxError ''Unexpected token in JSON'')
      | JNull \<Rightarrow> Inl (TypeError ''Cannot read properties of null'')
      | _ \<Rightarrow> Inl (TypeError ''not a ChallengeResponse''))"

definition as_MasterKeys :: "json \<Rightarrow> error + MasterKeys" where
  "as_MasterKeys j =
     (case j of
        JMasterKeys k \<Rightarrow> Inr k
      | NotJSON \<Rightarrow> Inl (SyntaxError ''Unexpected token in JSON'')
      | JNull \<Rightarrow> Inl (TypeError ''Cannot read properties of null'')
      | _ \<Rightarrow> Inl (TypeError ''not MasterKeys''))"

subsection \<open>LoginActions\<close>

text \<open>The message \<open>hashPassword\<close> posts to the worker: password and salt as given, the
  cost parameters of the object at that moment, and the fixed hash length.\<close>

definition Hash2i_request :: "Argon2HashParams \<Rightarrow> string \<Rightarrow> bytes \<Rightarrow> Argon2_Request" where
  "Hash2i_request params pw salt =
     \<lparr>action = Hash2i,
      hash_body = \<lparr>hash_password = pw, hash_salt = salt,
                   hash_timeCost = timeCost params,
                   hash_memoryCost = memoryCost params,
                   hash_threads = threads params,
                   hashLen = AUTHKEY_SIZE\<rparr>\<rparr>"

text \<open>\<open>hashPassword\<close> posts the request and waits for the worker's message. The
  non-null assertion on \<open>message.body\<close> is erased at run time, so the result is the body
  as it is.\<close>

definition hashPassword :: "env \<Rightarrow> string \<Rightarrow> bytes \<Rightarrow> bytes option io" where
  "hashPassword env pw salt = (\<lambda>s.
     let req = Hash2i_request (hashParams s) pw salt;
         s1 = s\<lparr>posted := posted s @ [req]\<rparr>;
         msg = worker_reply env req
     in if code msg \<noteq> ARGON2_OK then (Inl (Error ''Error running argon2.''), s1)
        else (Inr (response_body msg), s1))"

text \<open>\<open>authenticate\<close>, first part: from the call to the first \<open>await\<close>. The message is
  shown and the challenge request is sent; the value is the response awaited. (The
  parameter \<open>reuseAuthKey\<close>, \<open>false\<close> by default in the source, is always given here.)\<close>

definition authenticate_request :: "env \<Rightarrow> AuthUser \<Rightarrow> response io" where
  "authenticate_request env usr =
     bind (onMessage ''Requesting authentication challenge'') (\<lambda>_.
     let challengeRequest = \<lparr>request_email = email usr, request_totp = totp usr\<rparr> in
     fetch env \<lparr>url = route env ''/challenge?action=request'',
                http_method = ''POST'',
                headers = [(''Content-Type'', ''application/json'')],
                credentials = None,
                body = Some (ChallengeRequestBody challengeRequest)\<rparr>)"

text \<open>\<open>authenticate\<close>, second part: everything after the challenge request's response
  has arrived.\<close>

definition authenticate_solve :: "env \<Rightarrow> AuthUser \<Rightarrow> bool \<Rightarrow> response \<Rightarrow> AuthConditions io" where
  "authenticate_solve env usr reuseAuthKey res =
     (if status res = 412 then ret TOTPRequired
      else if status res \<noteq> 201 then
        (bind (lift (as_ErrorResponse (json res))) (\<lambda>err.
         throw (Error (or_else (message err) ''Unknown error requesting an auth challenge''))))
      else
        bind (lift (as_Challenge (json res))) (\<lambda>challenge.
        bind (set_hashParams (challenge_hashParams challenge)) (\<lambda>_.
        bind (lift (decode env (challenge_salt challenge))) (\<lambda>salt.
        bind (if reuseAuthKey then onMessage ''Using already generated authentication key''
              else
                bind (onMessage ''Generating authentication key'') (\<lambda>_.
                bind (hashPassword env (password usr) salt) (\<lambda>material.
                set_authKeyMaterial material))) (\<lambda>_.
        bind (onMessage ''Solving authentication challenge'') (\<lambda>_.
        bind get_authKeyMaterial (\<lambda>material.
        bind (subtle_importKey env ''raw'' material ''AES-CTR'' False [''decrypt'']) (\<lambda>authKey.
        bind (lift (decode env (challenge_data challenge))) (\<lambda>challengeData.
        let iv = take 16 challengeData; encrypted = drop 16 challengeData in
        bind (subtle_decrypt env \<lparr>ctr_name = ''AES-CTR'', counter = iv, ctr_length = 64\<rparr>
                authKey encrypted) (\<lambda>decrypted.
        bind (onMessage ''Submitting solved challenge'') (\<lambda>_.
        bind (fetch env \<lparr>url = route env (''/challenge/'' @ challenge_id challenge @ ''?action=submit''),
                         http_method = ''POST'',
                         headers = [(''Content-Type'', ''application/json'')],
                         credentials = None,
                         body = Some (SolvedChallengeBody \<lparr>solved_data = encode env decrypted\<rparr>)\<rparr>)
          (\<lambda>res.
        if status res = 401 then throw (Error ''Authentication failure, password is incorrect.'')
        else if status res \<noteq> 200 then
          (bind (lift (as_ErrorResponse (json res))) (\<lambda>err.
           throw (Error (or_else (message err) ''Error submitting challenge.''))))
        else
          bind (onMessage ''Successfully authenticated'') (\<lambda>_.
          bind (lift (as_ChallengeResponse (json res))) (\<lambda>response.
          bind (localStorage_setItem CSRF_TOKEN_KEY (CSRFtoken response)) (\<lambda>_.
          bind (userStore_login \<lparr>user_email = email usr, user_id = response_id response\<rparr>) (\<lambda>_.
          ret Success))))))))))))))))"

definition authenticate :: "env \<Rightarrow> AuthUser \<Rightarrow> bool \<Rightarrow> AuthConditions io" where
  "authenticate env usr reuseAuthKey =
     bind (authenticate_request env usr) (authenticate_solve env usr reuseAuthKey)"

text \<open>A header value that is \<open>null\<close> at run time (the non-null assertion is erased)
  goes out as the string \<open>null\<close>.\<close>

definition header_value :: "string option \<Rightarrow> string" where
  "header_value v = (case v of None \<Rightarrow> ''null'' | Some t \<Rightarrow> t)"

definition retrieveMasterKeypair :: "env \<Rightarrow> string \<Rightarrow> unit io" where
  "retrieveMasterKeypair env pw =
     bind (localStorage_getItem CSRF_TOKEN_KEY) (\<lambda>token.
     bind (fetch env \<lparr>url = route env ''/keys'',
                      http_method = ''GET'',
                      headers = [(''Content-Type'', ''application/json''),
                                 (''CSRF-Token'', header_value token)],
                      credentials = Some ''include'',
                      body = None\<rparr>) (\<lambda>res.
     if status res \<noteq> 200 then
       (bind (lift (as_ErrorResponse (json res))) (\<lambda>err.
        throw (Error (or_else (message err) ''Failed to fetch master keypair''))))
     else
       bind (lift (as_MasterKeys (json res))) (\<lambda>keys.
       bind (lift (rsa_importPublicKey env (keys_publicKey keys))) (\<lambda>publicKey.
       bind (set_hashParams (keys_hashParams keys)) (\<lambda>_.
       bind (onMessage ''Decryting master keypair'') (\<lambda>_.
       bind (lift (decode env (keys_hashSalt keys))) (\<lambda>salt.
       bind (hashPassword env pw salt) (\<lambda>tempKeyMaterial.
       bind (lift (aes_importKeyMaterial env tempKeyMaterial AES_GCM)) (\<lambda>tempKey.
       bind (console_log (keys_privateKey keys)) (\<lambda>_.
       bind (lift (rsa_unwrapPrivateKey env (keys_privateKey keys) tempKey)) (\<lambda>privateKey.
       bind get_userStore (\<lambda>store.
       let userID = user_id (user store) in
       db_addToStore ''keys''
         \<lparr>entry_id = userID, entry_publicKey = publicKey, entry_privateKey = privateKey\<rparr>
       ))))))))))))"

subsection \<open>RegisterActions\<close>

text \<open>\<open>register\<close> up to and including the storing of the user and the token
  (everything before the call of \<open>authenticate\<close>).\<close>

definition register_account :: "env \<Rightarrow> AuthUser \<Rightarrow> bytes \<Rightarrow> unit io" where
  "register_account env usr salt =
     bind (onMessage ''Generating authentication key'') (\<lambda>_.
     bind (hashPassword env (password usr) salt) (\<lambda>material.
     bind (set_authKeyMaterial material) (\<lambda>_.
     bind (set_saltLen (length salt)) (\<lambda>_.
     bind get_authKeyMaterial (\<lambda>material.
     bind get_hashParams (\<lambda>params.
     bind (lift (ABconcat env salt material)) (\<lambda>saltAndKey.
     bind (fetch env \<lparr>url = route env ''/register'',
                      http_method = ''POST'',
                      headers = [(''Content-Type'', ''application/json'')],
                      credentials = None,
                      body = Some (RegisterRequestBody
                               \<lparr>register_email = email usr,
                                register_key = encode env saltAndKey,
                                register_hashParams = params\<rparr>)\<rparr>) (\<lambda>res.
     if status res \<noteq> 201 then
       (bind (lift (as_ErrorResponse (json res))) (\<lambda>err.
        throw (Error (or_else (message err) ''Failed to register account''))))
     else
       bind (lift (as_ChallengeResponse (json res))) (\<lambda>response.
       bind (userStore_login \<lparr>user_email = email usr, user_id = response_id response\<rparr>) (\<lambda>_.
       localStorage_setItem CSRF_TOKEN_KEY (CSRFtoken response)))))))))))"

text \<open>
  \<open>register\<close> then calls \<open>this.authenticate(user, true)\<close> without awaiting it and
  returns. The call runs \<open>authenticate\<close> to its first \<open>await\<close>, which sends the
  challenge request; the rest of \<open>authenticate\<close> runs after \<open>register\<close> has returned, and
  the promise it settles is held by nobody. A run of \<open>register\<close> is therefore described by
  four things: how its own promise settles and the world at that moment, and how the
  promise of the call it left behind settles (\<open>None\<close> when the call was never made) and
  the world after that. Each call runs on its own here: what other code does between the
  return of \<open>register\<close> and the end of the login it left behind is not part of a run.
\<close>

record register_run =
  returned :: "error + unit"
  at_return :: world
  detached :: "(error + AuthConditions) option"
  settled :: world

definition register :: "env \<Rightarrow> AuthUser \<Rightarrow> bytes \<Rightarrow> world \<Rightarrow> register_run" where
  "register env usr salt s =
     (case register_account env usr salt s of
        (Inl e, s1) \<Rightarrow> \<lparr>returned = Inl e, at_return = s1, detached = None, settled = s1\<rparr>
      | (Inr _, s1) \<Rightarrow>
          \<lparr>returned = Inr (),
           at_return = snd (authenticate_request env usr s1),
           detached = Some (fst (authenticate env usr True s1)),
           settled = snd (authenticate env usr True s1)\<rparr>)"

text \<open>\<open>generateMasterKeypair\<close>; the source's default for \<open>keysize\<close> is 4096. The last
  call, \<open>db.addToStore\<close>, is not awaited.\<close>

definition generateMasterKeypair :: "env \<Rightarrow> string \<Rightarrow> bytes \<Rightarrow> nat \<Rightarrow> unit io" where
  "generateMasterKeypair env pw salt keysize =
     bind (onMessage ''Generating master keypair'') (\<lambda>_.
     bind (hashPassword env pw salt) (\<lambda>tempKeyMaterial.
     bind (lift (aes_importKeyMaterial env tempKeyMaterial AES_GCM)) (\<lambda>tempKey.
     bind (lift (rsa_generateKeypair env keysize)) (\<lambda>(publicKey, privateKey).
     bind (lift (rsa_exportPublicKey env publicKey)) (\<lambda>exportedPublicKey.
     bind (lift (rsa_wrapPrivateKey env privateKey tempKey)) (\<lambda>encryptedPrivateKey.
     bind (localStorage_getItem CSRF_TOKEN_KEY) (\<lambda>token.
     case token of
       None \<Rightarrow> throw (Error ''Failed to retrieve CSRF-Token from localstorage.'')
     | Some csrf \<Rightarrow>
       bind get_hashParams (\<lambda>params.
       bind (fetch env \<lparr>url = route env ''/keys'',
                        http_method = ''POST'',
                        headers = [(''Content-Type'', ''application/json''),
                                   (''CSRF-Token'', csrf)],
                        credentials = Some ''include'',
                        body = Some (MasterKeysBody
                                 \<lparr>keys_publicKey = exportedPublicKey,
                                  keys_privateKey = encryptedPrivateKey,
                                  keys_hashSalt = encode env salt,
                                  keys_hashParams = params\<rparr>)\<rparr>) (\<lambda>res.
       if status res \<noteq> 201 then
         (bind (lift (as_ErrorResponse (json res))) (\<lambda>err.
          throw (Error (or_else (message err) ''Failed to store master keypair''))))
       else
         bind get_userStore (\<lambda>store.
         let userID = user_id (user store) in
         db_addToStore ''keys''
           \<lparr>entry_id = userID, entry_publicKey = publicKey, entry_privateKey = privateKey\<rparr>
         ))))))))))"

subsection \<open>A new object in a new browser\<close>

text \<open>The initial values of the object's fields, with empty stores and nothing done yet.\<close>

definition default_hashParams :: Argon2HashParams where
  "default_hashParams =
     \<lparr>hp_type = ''argon2i'', timeCost = 1, memoryCost = 128 * 1024, threads = 1, saltLen = 16\<rparr>"

definition fresh_world :: world where
  "fresh_world =
     \<lparr>hashParams = default_hashParams, authKeyMaterial = None, localStorage = Map.empty,
      userStore = \<lparr>user = \<lparr>user_email = [], user_id = []\<rparr>, isLoggedIn = False\<rparr>,
      idb = Map.empty, messages = [], posted = [], sent = [], subtle_calls = [], console = []\<rparr>"

section \<open>A sample environment\<close>

text \<open>
  A small server and small stand-ins for the libraries, on which the module can be run:
  the server answers the challenge request and the challenge submission with the two
  given status codes, and accepts registrations and key uploads.
\<close>

definition sample_challenge :: Challenge where
  "sample_challenge =
     \<lparr>challenge_id = ''c1'', challenge_data = ''0123456789abcdefPAYLOAD'',
      challenge_salt = ''saltsaltsaltsalt'',
      challenge_hashParams =
        \<lparr>hp_type = ''argon2i'', timeCost = 3, memoryCost = 4096, threads = 2, saltLen = 16\<rparr>\<rparr>"

definition sample_server :: "nat \<Rightarrow> nat \<Rightarrow> request \<Rightarrow> error + response" where
  "sample_server challenge_status submit_status req =
     (case body req of
        None \<Rightarrow>
          Inr \<lparr>status = 200,
               json = JMasterKeys \<lparr>keys_publicKey = ''spki'', keys_privateKey = ''wrapped'',
                        keys_hashSalt = ''wrapsalt'', keys_hashParams = default_hashParams\<rparr>\<rparr>
      | Some (ChallengeRequestBody q) \<Rightarrow>
          Inr \<lparr>status = challenge_status,
               json = (if challenge_status = 201 then JChallenge sample_challenge
                       else JError \<lparr>message = None\<rparr>)\<rparr>
      | Some (SolvedChallengeBody q) \<Rightarrow>
          Inr \<lparr>status = submit_status,
               json = (if submit_status = 200
                       then JChallengeResponse \<lparr>response_id = ''u1'', CSRFtoken = ''t1''\<rparr>
                       else JError \<lparr>message = Some ''challenge expired''\<rparr>)\<rparr>
      | Some (RegisterRequestBody q) \<Rightarrow>
          Inr \<lparr>status = 201,
               json = JChallengeResponse \<lparr>response_id = ''u1'', CSRFtoken = ''t0''\<rparr>\<rparr>
      | Some (MasterKeysBody q) \<Rightarrow>
          Inr \<lparr>status = 201, json = JError \<lparr>message = None\<rparr>\<rparr>)"

definition sample_env :: "(request \<Rightarrow> error + response) \<Rightarrow> env" where
  "sample_env srv =
     \<lparr>NODE_ENV = ''production'',
      server = srv,
      worker_reply = (\<lambda>req. \<lparr>code = 0,
         response_body = Some (replicate (hashLen (hash_body req))
                                 (of_nat (length (hash_password (hash_body req)))))\<rparr>),
      encode = map (\<lambda>b. char_of (unat b)),
      decode = (\<lambda>t. Inr (map (\<lambda>c. of_nat (of_char c)) t)),
      ABconcat = (\<lambda>a b. case b of None \<Rightarrow> Inl (TypeError ''byteLength of undefined'')
                         | Some k \<Rightarrow> Inr (a @ k)),
      importKey = (\<lambda>format keyData algorithm extractable usages.
         case keyData of None \<Rightarrow> Inl (TypeError ''keyData is not a BufferSource'')
         | Some k \<Rightarrow> Inr (CryptoKey (length k))),
      decrypt = (\<lambda>params key data.
         if length (counter params) = 16 then Inr (rev data)
         else Inl (DOMException ''OperationError'')),
      aes_importKeyMaterial = (\<lambda>keyData alg.
         case keyData of None \<Rightarrow> Inl (TypeError ''keyData is not a BufferSource'')
         | Some k \<Rightarrow> Inr (CryptoKey (length k))),
      rsa_generateKeypair = (\<lambda>keysize. Inr (CryptoKey keysize, CryptoKey (Suc keysize))),
      rsa_exportPublicKey = (\<lambda>k. Inr ''spki''),
      rsa_importPublicKey = (\<lambda>t. Inr (CryptoKey (length t))),
      rsa_wrapPrivateKey = (\<lambda>k t. Inr ''wrapped''),
      rsa_unwrapPrivateKey = (\<lambda>t k. Inr (CryptoKey (length t)))\<rparr>"

text \<open>A server that answers the challenge request and the challenge submission with the
  two given responses.\<close>

definition reply_server :: "response \<Rightarrow> response \<Rightarrow> request \<Rightarrow> error + response" where
  "reply_server challenge_reply submit_reply req =
     (case body req of
        Some (ChallengeRequestBody q) \<Rightarrow> Inr challenge_reply
      | Some (SolvedChallengeBody q) \<Rightarrow> Inr submit_reply
      | _ \<Rightarrow> sample_server 201 200 req)"

definition sample_wrap_salt :: bytes where
  "sample_wrap_salt = [16, 15, 14, 13, 12, 11, 10, 9, 8, 7, 6, 5, 4, 3, 2, 1]"

definition sample_salt :: bytes where
  "sample_salt = [1, 2, 3, 4, 5, 6, 7, 8, 9, 10, 11, 12, 13, 14, 15, 16]"

definition alice :: AuthUser where
  "alice = \<lparr>email = ''a@b.com'', password = ''correct horse'', totp = None\<rparr>"

text \<open>The browser after a login: a token in \<open>localStorage\<close>, a user in the store.\<close>

definition signed_in_world :: world where
  "signed_in_world =
     fresh_world\<lparr>localStorage := [''CSRF-Token'' \<mapsto> ''t0''],
                 userStore := \<lparr>user = \<lparr>user_email = ''a@b.com'', user_id = ''u1''\<rparr>,
                               isLoggedIn = True\<rparr>\<rparr>"

section \<open>Running the module step by step\<close>

lemma run_simps:
  "ret x s = (Inr x, s)"
  "throw e s = (Inl e, s)"
  "lift r s = (r, s)"
  "bind m f s = (case m s of (Inl e, s') \<Rightarrow> (Inl e, s') | (Inr x, s') \<Rightarrow> f x s')"
  "onMessage msg s = (Inr (), s\<lparr>messages := messages s @ [msg]\<rparr>)"
  "console_log msg s = (Inr (), s\<lparr>console := console s @ [msg]\<rparr>)"
  "fetch env req s = (server env req, s\<lparr>sent := sent s @ [req]\<rparr>)"
  "subtle_importKey env format keyData algorithm extractable usages s =
     (importKey env format keyData algorithm extractable usages,
      s\<lparr>subtle_calls := subtle_calls s @ [ImportKey format keyData algorithm extractable usages]\<rparr>)"
  "subtle_decrypt env params key data s =
     (decrypt env params key data, s\<lparr>subtle_calls := subtle_calls s @ [Decrypt params key data]\<rparr>)"
  "get_hashParams s = (Inr (hashParams s), s)"
  "set_hashParams hp s = (Inr (), s\<lparr>hashParams := hp\<rparr>)"
  "set_saltLen n s = (Inr (), s\<lparr>hashParams := (hashParams s)\<lparr>saltLen := n\<rparr>\<rparr>)"
  "get_authKeyMaterial s = (Inr (authKeyMaterial s), s)"
  "set_authKeyMaterial material s = (Inr (), s\<lparr>authKeyMaterial := material\<rparr>)"
  "localStorage_getItem k s = (Inr (localStorage s k), s)"
  "localStorage_setItem k v s = (Inr (), s\<lparr>localStorage := (localStorage s)(k \<mapsto> v)\<rparr>)"
  "userStore_login u s = (Inr (), s\<lparr>userStore := \<lparr>user = u, isLoggedIn = True\<rparr>\<rparr>)"
  "get_userStore s = (Inr (userStore s), s)"
  "db_addToStore storeName entry s =
     (Inr (), s\<lparr>idb := (idb s)((storeName, entry_id entry) \<mapsto> entry)\<rparr>)"
  by (simp_all add: ret_def throw_def lift_def bind_def onMessage_def console_log_def fetch_def
        subtle_importKey_def subtle_decrypt_def get_hashParams_def set_hashParams_def
        set_saltLen_def get_authKeyMaterial_def set_authKeyMaterial_def
        localStorage_getItem_def localStorage_setItem_def userStore_login_def
        get_userStore_def db_addToStore_def split: prod.split sum.split)

lemma hashPassword_run:
  "hashPassword env pw salt s =
     (if code (worker_reply env (Hash2i_request (hashParams s) pw salt)) \<noteq> ARGON2_OK
      then Inl (Error ''Error running argon2.'')
      else Inr (response_body (worker_reply env (Hash2i_request (hashParams s) pw salt))),
      s\<lparr>posted := posted s @ [Hash2i_request (hashParams s) pw salt]\<rparr>)"
  by (simp add: hashPassword_def Let_def)

lemma bind_simps:
  "bind (ret x) f s = f x s"
  "bind (throw e) f s = (Inl e, s)"
  "bind (lift r) f s = (case r of Inl e \<Rightarrow> (Inl e, s) | Inr x \<Rightarrow> f x s)"
  "bind (bind m g) f = bind m (\<lambda>x. bind (g x) f)"
  "bind (if b then m1 else m2) f = (if b then bind m1 f else bind m2 f)"
  "bind (onMessage msg) fu s = fu () (s\<lparr>messages := messages s @ [msg]\<rparr>)"
  "bind (console_log msg) fu s = fu () (s\<lparr>console := console s @ [msg]\<rparr>)"
  "bind (fetch env req) fr s =
     (case server env req of Inl e \<Rightarrow> (Inl e, s\<lparr>sent := sent s @ [req]\<rparr>)
      | Inr res \<Rightarrow> fr res (s\<lparr>sent := sent s @ [req]\<rparr>))"
  "bind (subtle_importKey env format keyData algorithm extractable usages) fk s =
     (case importKey env format keyData algorithm extractable usages of
        Inl e \<Rightarrow> (Inl e, s\<lparr>subtle_calls := subtle_calls s @ [ImportKey format keyData algorithm extractable usages]\<rparr>)
      | Inr k \<Rightarrow> fk k (s\<lparr>subtle_calls := subtle_calls s @ [ImportKey format keyData algorithm extractable usages]\<rparr>))"
  "bind (subtle_decrypt env params key data) fb s =
     (case decrypt env params key data of
        Inl e \<Rightarrow> (Inl e, s\<lparr>subtle_calls := subtle_calls s @ [Decrypt params key data]\<rparr>)
      | Inr d \<Rightarrow> fb d (s\<lparr>subtle_calls := subtle_calls s @ [Decrypt params key data]\<rparr>))"
  "bind get_hashParams fh s = fh (hashParams s) s"
  "bind (set_hashParams hp) fu s = fu () (s\<lparr>hashParams := hp\<rparr>)"
  "bind (set_saltLen n) fu s = fu () (s\<lparr>hashParams := (hashParams s)\<lparr>saltLen := n\<rparr>\<rparr>)"
  "bind get_authKeyMaterial fm s = fm (authKeyMaterial s) s"
  "bind (set_authKeyMaterial material) fu s = fu () (s\<lparr>authKeyMaterial := material\<rparr>)"
  "bind (localStorage_getItem k) ft s = ft (localStorage s k) s"
  "bind (localStorage_setItem k v) fu s = fu () (s\<lparr>localStorage := (localStorage s)(k \<mapsto> v)\<rparr>)"
  "bind (userStore_login u) fu s = fu () (s\<lparr>userStore := \<lparr>user = u, isLoggedIn = True\<rparr>\<rparr>)"
  "bind get_userStore fs s = fs (userStore s) s"
  "bind (db_addToStore storeName entry) fu s =
     fu () (s\<lparr>idb := (idb s)((storeName, entry_id entry) \<mapsto> entry)\<rparr>)"
  "bind (hashPassword env pw salt) fm s =
     (if code (worker_reply env (Hash2i_request (hashParams s) pw salt)) \<noteq> ARGON2_OK
      then (Inl (Error ''Error running argon2.''), s\<lparr>posted := posted s @ [Hash2i_request (hashParams s) pw salt]\<rparr>)
      else fm (response_body (worker_reply env (Hash2i_request (hashParams s) pw salt)))
              (s\<lparr>posted := posted s @ [Hash2i_request (hashParams s) pw salt]\<rparr>))"
  by (auto simp add: fun_eq_iff bind_def hashPassword_run run_simps(1-3,5-) split: prod.split sum.split)

lemmas exec = bind_simps run_simps(1-3,5-) hashPassword_run

lemmas sample_defs = sample_env_def sample_server_def sample_challenge_def alice_def
  signed_in_world_def fresh_world_def default_hashParams_def sample_salt_def
  sample_wrap_salt_def reply_server_def

lemmas sample_eval = authenticate_def authenticate_request_def authenticate_solve_def
  register_def register_account_def generateMasterKeypair_def retrieveMasterKeypair_def
  exec Let_def sample_defs as_Challenge_def as_ChallengeResponse_def as_MasterKeys_def
  as_ErrorResponse_def or_else_def header_value_def AUTHKEY_SIZE_def CSRF_TOKEN_KEY_def
  Hash2i_request_def ARGON2_OK_def route_def

lemma authenticate_split:
  "authenticate env usr reuse s =
     (case fst (authenticate_request env usr s) of
        Inl e \<Rightarrow> (Inl e, snd (authenticate_request env usr s))
      | Inr res \<Rightarrow> authenticate_solve env usr reuse res (snd (authenticate_request env usr s)))"
  by (simp add: authenticate_def bind_def split: prod.splits sum.splits)

section \<open>Outcomes of \<open>authenticate\<close>\<close>

lemma authenticate_request_keeps:
  "hashParams (snd (authenticate_request env usr s)) = hashParams s"
  "authKeyMaterial (snd (authenticate_request env usr s)) = authKeyMaterial s"
  "posted (snd (authenticate_request env usr s)) = posted s"
  "subtle_calls (snd (authenticate_request env usr s)) = subtle_calls s"
  "localStorage (snd (authenticate_request env usr s)) = localStorage s"
  "userStore (snd (authenticate_request env usr s)) = userStore s"
  "idb (snd (authenticate_request env usr s)) = idb s"
  by (simp_all add: authenticate_request_def exec Let_def split: sum.split)

lemma authenticate_after_request:
  "fst (authenticate_request env usr s) = Inr res \<Longrightarrow>
   authenticate env usr reuse s
     = authenticate_solve env usr reuse res (snd (authenticate_request env usr s))"
  by (simp add: authenticate_split)

lemma Hash2i_request_fields:
  "Hash2i_request params pw salt =
     \<lparr>action = Hash2i,
      hash_body = \<lparr>hash_password = pw, hash_salt = salt,
                   hash_timeCost = timeCost params,
                   hash_memoryCost = memoryCost params,
                   hash_threads = threads params,
                   hashLen = 32\<rparr>\<rparr>"
  by (simp add: Hash2i_request_def AUTHKEY_SIZE_def)

lemma authenticate_solve_reuse_import:
  assumes "status res = 201" and "json res = JChallenge c"
    and "decode env (challenge_salt c) = Inr salt"
  shows "\<exists>rest. subtle_calls (snd (authenticate_solve env usr True res s))
           = subtle_calls s @ ImportKey ''raw'' (authKeyMaterial s) ''AES-CTR'' False [''decrypt''] # rest"
proof -
  have "case authenticate_solve env usr True res s of (r, s') \<Rightarrow>
          \<exists>rest. subtle_calls s'
            = subtle_calls s @ ImportKey ''raw'' (authKeyMaterial s) ''AES-CTR'' False [''decrypt''] # rest"
    using assms
    by (simp add: authenticate_solve_def exec Let_def as_Challenge_def split: sum.split)
  then show ?thesis
    by (simp add: case_prod_beta)
qed


text \<open>
  Claim C5, as stated: any status other than 412 and 201 makes \<open>authenticate\<close> throw a
  failure that carries the server's message or the fallback string. A status 500 whose
  body is not JSON does neither: \<open>res.json()\<close> rejects before the \<open>Error\<close> is built, and
  what \<open>authenticate\<close> throws is that \<open>SyntaxError\<close>. With the body \<open>null\<close> it is the
  \<open>TypeError\<close> of the read of \<open>err.message\<close>.
\<close>

theorem authenticate_challenge_status_counterexample:
  "fst (authenticate
        (sample_env (reply_server \<lparr>status = 500, json = NotJSON\<rparr> \<lparr>status = 200, json = JNull\<rparr>))
        alice False fresh_world)
     = Inl (SyntaxError ''Unexpected token in JSON'')
   \<and> fst (authenticate
        (sample_env (reply_server \<lparr>status = 500, json = NotJSON\<rparr> \<lparr>status = 200, json = JNull\<rparr>))
        alice False fresh_world)
     \<noteq> Inl (Error ''Unknown error requesting an auth challenge'')
   \<and> fst (authenticate
        (sample_env (reply_server \<lparr>status = 500, json = JNull\<rparr> \<lparr>status = 200, json = JNull\<rparr>))
        alice False fresh_world)
     = Inl (TypeError ''Cannot read properties of null'')"
  by (simp add: sample_eval)

text \<open>
  Claim C5, amended. When the challenge request is answered with status 412,
  \<open>authenticate\<close> returns \<open>TOTPRequired\<close> as a value, having done nothing beyond sending the
  request. With any other status than 201 and a body that is a JSON object, it throws an
  \<open>Error\<close>: with the server's message when the object has a non-empty one, and with
  \<open>Unknown error requesting an auth challenge\<close> when the message is absent or empty
  (as it is in an object of one of the other shapes).
\<close>

theorem authenticate_challenge_status:
  assumes "fst (authenticate_request env usr s) = Inr res"
  shows "(status res = 412 \<longrightarrow>
            authenticate env usr reuse s = (Inr TOTPRequired, snd (authenticate_request env usr s)))
       \<and> (status res \<noteq> 412 \<and> status res \<noteq> 201 \<longrightarrow>
            (\<forall>err m. json res = JError err \<and> message err = Some m \<and> m \<noteq> [] \<longrightarrow>
               authenticate env usr reuse s
                 = (Inl (Error m), snd (authenticate_request env usr s)))
          \<and> (\<forall>err. json res = JError err \<and> (message err = None \<or> message err = Some []) \<longrightarrow>
               authenticate env usr reuse s
                 = (Inl (Error ''Unknown error requesting an auth challenge''),
                    snd (authenticate_request env usr s)))
          \<and> ((\<exists>c. json res = JChallenge c) \<or> (\<exists>a. json res = JChallengeResponse a)
               \<or> (\<exists>k. json res = JMasterKeys k) \<longrightarrow>
               authenticate env usr reuse s
                 = (Inl (Error ''Unknown error requesting an auth challenge''),
                    snd (authenticate_request env usr s))))"
  using assms
  by (auto simp add: authenticate_split authenticate_solve_def exec as_ErrorResponse_def
        or_else_def)

theorem authenticate_challenge_status_witness:
  "fst (authenticate (sample_env (sample_server 412 200)) alice False fresh_world) = Inr TOTPRequired
   \<and> fst (authenticate
        (sample_env (reply_server \<lparr>status = 403, json = JError \<lparr>message = Some ''account locked''\<rparr>\<rparr>
                                  \<lparr>status = 200, json = JNull\<rparr>)) alice False fresh_world)
       = Inl (Error ''account locked'')
   \<and> fst (authenticate (sample_env (sample_server 500 200)) alice False fresh_world)
       = Inl (Error ''Unknown error requesting an auth challenge'')
   \<and> fst (authenticate
        (sample_env (reply_server \<lparr>status = 500, json = JError \<lparr>message = Some []\<rparr>\<rparr>
                                  \<lparr>status = 200, json = JNull\<rparr>)) alice False fresh_world)
       = Inl (Error ''Unknown error requesting an auth challenge'')"
proof -
  let ?locked = "\<lparr>status = 403, json = JError \<lparr>message = Some ''account locked''\<rparr>\<rparr>"
  let ?empty = "\<lparr>status = 500, json = JError \<lparr>message = Some []\<rparr>\<rparr>"
  let ?none = "\<lparr>status = 500, json = JError \<lparr>message = None\<rparr>\<rparr>"
  let ?ok = "\<lparr>status = 200, json = JNull\<rparr>"
  have a: "fst (authenticate_request (sample_env (sample_server 412 200)) alice fresh_world)
             = Inr \<lparr>status = 412, json = JError \<lparr>message = None\<rparr>\<rparr>"
    by (simp add: sample_eval)
  have b: "fst (authenticate_request (sample_env (reply_server ?locked ?ok)) alice fresh_world)
             = Inr ?locked"
    by (simp add: sample_eval)
  have c: "fst (authenticate_request (sample_env (sample_server 500 200)) alice fresh_world)
             = Inr ?none"
    by (simp add: sample_eval)
  have d: "fst (authenticate_request (sample_env (reply_server ?empty ?ok)) alice fresh_world)
             = Inr ?empty"
    by (simp add: sample_eval)
  from authenticate_challenge_status [OF a, of False]
  have 1: "fst (authenticate (sample_env (sample_server 412 200)) alice False fresh_world)
             = Inr TOTPRequired"
    by simp
  from authenticate_challenge_status [OF b, of False]
  have 2: "fst (authenticate (sample_env (reply_server ?locked ?ok)) alice False fresh_world)
             = Inl (Error ''account locked'')"
    by simp
  from authenticate_challenge_status [OF c, of False]
  have 3: "fst (authenticate (sample_env (sample_server 500 200)) alice False fresh_world)
             = Inl (Error ''Unknown error requesting an auth challenge'')"
    by simp
  from authenticate_challenge_status [OF d, of False]
  have 4: "fst (authenticate (sample_env (reply_server ?empty ?ok)) alice False fresh_world)
             = Inl (Error ''Unknown error requesting an auth challenge'')"
    by simp
  from 1 2 3 4 show ?thesis by simp
qed

text \<open>
  Claim C1, as stated: a 401 on the challenge submission is reported as a failure distinct
  from the generic one, and every other status than 200 as a failure carrying the
  server's message or the fallback string. Both failures are plain \<open>Error\<close> objects told
  apart by their message only: a status 500 whose message is the incorrect-password text
  is reported exactly as the 401 is. And a body that is not JSON, or is \<open>null\<close>, makes
  \<open>authenticate\<close> throw the \<open>SyntaxError\<close> of \<open>res.json()\<close>, or the \<open>TypeError\<close> of the
  read of \<open>err.message\<close>, in place of the \<open>Error\<close>.
\<close>

theorem authenticate_failure_counterexample:
  "fst (authenticate
        (sample_env (reply_server \<lparr>status = 201, json = JChallenge sample_challenge\<rparr>
           \<lparr>status = 500,
            json = JError \<lparr>message = Some ''Authentication failure, password is incorrect.''\<rparr>\<rparr>))
        alice False fresh_world)
     = fst (authenticate (sample_env (sample_server 201 401)) alice False fresh_world)
   \<and> fst (authenticate
        (sample_env (reply_server \<lparr>status = 201, json = JChallenge sample_challenge\<rparr>
                                  \<lparr>status = 502, json = NotJSON\<rparr>))
        alice False fresh_world)
     = Inl (SyntaxError ''Unexpected token in JSON'')
   \<and> fst (authenticate
        (sample_env (reply_server \<lparr>status = 201, json = JChallenge sample_challenge\<rparr>
                                  \<lparr>status = 500, json = JNull\<rparr>))
        alice False fresh_world)
     = Inl (TypeError ''Cannot read properties of null'')"
  by (simp add: sample_eval)

text \<open>
  Claim C1, amended. Of a run of \<open>authenticate\<close> that has sent its second request, the
  challenge submission: a response with status 401 makes it throw the \<open>Error\<close> with the
  fixed incorrect-password message, whatever the body says; a response with any other
  status than 200 and a JSON object as body makes it throw an \<open>Error\<close> with the server's
  message when there is a non-empty one (so the same \<open>Error\<close> as for a 401 when the
  server sends that very text), and with \<open>Error submitting challenge.\<close> when the message
  is absent or empty. And whenever \<open>authenticate\<close> throws, for whatever reason, the stored
  token and the user store are what they were before the call.
\<close>

theorem authenticate_failure:
  assumes run: "authenticate env usr reuse s = (r, s')"
  shows "(\<forall>res. length (sent s') = length (sent s) + 2 \<and> server env (last (sent s')) = Inr res \<longrightarrow>
            (status res = 401 \<longrightarrow>
               r = Inl (Error ''Authentication failure, password is incorrect.''))
          \<and> (status res \<noteq> 401 \<and> status res \<noteq> 200 \<longrightarrow>
               (\<forall>err m. json res = JError err \<and> message err = Some m \<and> m \<noteq> [] \<longrightarrow>
                  r = Inl (Error m))
             \<and> (\<forall>err. json res = JError err \<and> (message err = None \<or> message err = Some []) \<longrightarrow>
                  r = Inl (Error ''Error submitting challenge.''))
             \<and> ((\<exists>c. json res = JChallenge c) \<or> (\<exists>a. json res = JChallengeResponse a)
                  \<or> (\<exists>k. json res = JMasterKeys k) \<longrightarrow>
                  r = Inl (Error ''Error submitting challenge.''))))
       \<and> (\<forall>e. r = Inl e \<longrightarrow> localStorage s' = localStorage s \<and> userStore s' = userStore s)"
proof -
  have "case authenticate env usr reuse s of (r, s') \<Rightarrow>
       (\<forall>res. length (sent s') = length (sent s) + 2 \<and> server env (last (sent s')) = Inr res \<longrightarrow>
            (status res = 401 \<longrightarrow>
               r = Inl (Error ''Authentication failure, password is incorrect.''))
          \<and> (status res \<noteq> 401 \<and> status res \<noteq> 200 \<longrightarrow>
               (\<forall>err. as_ErrorResponse (json res) = Inr err \<longrightarrow>
                  r = Inl (Error (or_else (message err) ''Error submitting challenge.'')))))
       \<and> (\<forall>e. r = Inl e \<longrightarrow> localStorage s' = localStorage s \<and> userStore s' = userStore s)"
    by (cases reuse)
       (simp_all add: authenticate_def authenticate_request_def authenticate_solve_def exec
          Let_def split: sum.split)
  with run have *:
      "(\<forall>res. length (sent s') = length (sent s) + 2 \<and> server env (last (sent s')) = Inr res \<longrightarrow>
            (status res = 401 \<longrightarrow>
               r = Inl (Error ''Authentication failure, password is incorrect.''))
          \<and> (status res \<noteq> 401 \<and> status res \<noteq> 200 \<longrightarrow>
               (\<forall>err. as_ErrorResponse (json res) = Inr err \<longrightarrow>
                  r = Inl (Error (or_else (message err) ''Error submitting challenge.'')))))
       \<and> (\<forall>e. r = Inl e \<longrightarrow> localStorage s' = localStorage s \<and> userStore s' = userStore s)"
    by simp
  have some: "or_else (Some m) fb = m" if "m \<noteq> []" for m fb
    using that by (simp add: or_else_def)
  have none: "or_else None fb = fb" "or_else (Some []) fb = fb" for fb
    by (simp_all add: or_else_def)
  have err: "as_ErrorResponse (JError e) = Inr e"
    "as_ErrorResponse (JChallenge c) = Inr \<lparr>message = None\<rparr>"
    "as_ErrorResponse (JChallengeResponse a) = Inr \<lparr>message = None\<rparr>"
    "as_ErrorResponse (JMasterKeys k) = Inr \<lparr>message = None\<rparr>" for e c a k
    by (simp_all add: as_ErrorResponse_def)
  have "r = Inl (Error (or_else (message err) ''Error submitting challenge.''))"
    if "length (sent s') = length (sent s) + 2 \<and> server env (last (sent s')) = Inr res"
      and "status res \<noteq> 401 \<and> status res \<noteq> 200"
      and "as_ErrorResponse (json res) = Inr err" for res err
    using * that by blast
  note generic = this
  show ?thesis
  proof (intro conjI allI impI)
    fix res
    assume h: "length (sent s') = length (sent s) + 2 \<and> server env (last (sent s')) = Inr res"
    {
      assume "status res = 401"
      with * h show "r = Inl (Error ''Authentication failure, password is incorrect.'')"
        by blast
    }
    assume st: "status res \<noteq> 401 \<and> status res \<noteq> 200"
    {
      fix err m
      assume "json res = JError err \<and> message err = Some m \<and> m \<noteq> []"
      with generic [OF h st, of err] show "r = Inl (Error m)"
        by (simp add: err some)
    }
    {
      fix err
      assume "json res = JError err \<and> (message err = None \<or> message err = Some [])"
      with generic [OF h st, of err] show "r = Inl (Error ''Error submitting challenge.'')"
        by (auto simp add: err none)
    }
    {
      assume "(\<exists>c. json res = JChallenge c) \<or> (\<exists>a. json res = JChallengeResponse a)
                  \<or> (\<exists>k. json res = JMasterKeys k)"
      with generic [OF h st, of "\<lparr>message = None\<rparr>"]
      show "r = Inl (Error ''Error submitting challenge.'')"
        by (auto simp add: err none)
    }
  next
    fix e
    assume "r = Inl e"
    with * show "localStorage s' = localStorage s" "userStore s' = userStore s"
      by blast+
  qed
qed

theorem authenticate_failure_witness:
  "fst (authenticate (sample_env (sample_server 201 401)) alice False fresh_world)
     = Inl (Error ''Authentication failure, password is incorrect.'')
   \<and> localStorage (snd (authenticate (sample_env (sample_server 201 401)) alice False fresh_world))
       = localStorage fresh_world
   \<and> userStore (snd (authenticate (sample_env (sample_server 201 401)) alice False fresh_world))
       = userStore fresh_world
   \<and> fst (authenticate (sample_env (sample_server 201 500)) alice False fresh_world)
     = Inl (Error ''challenge expired'')
   \<and> fst (authenticate
        (sample_env (reply_server \<lparr>status = 201, json = JChallenge sample_challenge\<rparr>
                                  \<lparr>status = 500, json = JError \<lparr>message = None\<rparr>\<rparr>))
        alice False fresh_world)
     = Inl (Error ''Error submitting challenge.'')"
proof -
  let ?none = "\<lparr>status = 500, json = JError \<lparr>message = None\<rparr>\<rparr>"
  let ?envC = "sample_env (reply_server \<lparr>status = 201, json = JChallenge sample_challenge\<rparr> ?none)"
  let ?A = "authenticate (sample_env (sample_server 201 401)) alice False fresh_world"
  let ?B = "authenticate (sample_env (sample_server 201 500)) alice False fresh_world"
  let ?C = "authenticate ?envC alice False fresh_world"
  have lenA: "length (sent (snd ?A)) = length (sent fresh_world) + 2"
    by (simp add: sample_eval)
  have resA: "server (sample_env (sample_server 201 401)) (last (sent (snd ?A)))
                = Inr \<lparr>status = 401, json = JError \<lparr>message = Some ''challenge expired''\<rparr>\<rparr>"
    by (simp add: sample_eval)
  have lenB: "length (sent (snd ?B)) = length (sent fresh_world) + 2"
    by (simp add: sample_eval)
  have resB: "server (sample_env (sample_server 201 500)) (last (sent (snd ?B)))
                = Inr \<lparr>status = 500, json = JError \<lparr>message = Some ''challenge expired''\<rparr>\<rparr>"
    by (simp add: sample_eval)
  have lenC: "length (sent (snd ?C)) = length (sent fresh_world) + 2"
    by (simp add: sample_eval)
  have resC: "server ?envC (last (sent (snd ?C))) = Inr ?none"
    by (simp add: sample_eval)
  note fA = authenticate_failure [OF prod.collapse [symmetric],
                of "sample_env (sample_server 201 401)" alice False fresh_world]
  note fB = authenticate_failure [OF prod.collapse [symmetric],
                of "sample_env (sample_server 201 500)" alice False fresh_world]
  note fC = authenticate_failure [OF prod.collapse [symmetric], of ?envC alice False fresh_world]
  from fA [THEN conjunct1, rule_format, OF conjI [OF lenA resA]]
  have A: "fst ?A = Inl (Error ''Authentication failure, password is incorrect.'')"
    by simp
  from fA [THEN conjunct2, rule_format, OF A]
  have A': "localStorage (snd ?A) = localStorage fresh_world
            \<and> userStore (snd ?A) = userStore fresh_world" .
  from fB [THEN conjunct1, rule_format, OF conjI [OF lenB resB]]
  have B: "fst ?B = Inl (Error ''challenge expired'')"
    by simp
  from fC [THEN conjunct1, rule_format, OF conjI [OF lenC resC]]
  have C: "fst ?C = Inl (Error ''Error submitting challenge.'')"
    by simp
  from A A' B C show ?thesis by simp
qed

section \<open>Solving the challenge\<close>

text \<open>
  Claim C7. Once a challenge has arrived (status 201), the object's cost parameters are
  those of the challenge, however the run ends. With key reuse the run posts no hash
  request and leaves the stored key material alone. Without it, and once the challenge's
  salt is decoded, the run posts exactly one hash request, written out below: the user's
  password, the decoded salt of the challenge, and the time cost, memory cost and thread
  count of the challenge; the material the worker returns for it is stored in the object.
\<close>

theorem authenticate_adopts_challenge_parameters:
  assumes "fst (authenticate_request env usr s) = Inr res" and "status res = 201"
    and "json res = JChallenge c"
  shows "hashParams (snd (authenticate env usr reuse s)) = challenge_hashParams c
     \<and> (reuse \<longrightarrow> posted (snd (authenticate env usr reuse s)) = posted s
                  \<and> authKeyMaterial (snd (authenticate env usr reuse s)) = authKeyMaterial s)
     \<and> (\<forall>salt. \<not> reuse \<and> decode env (challenge_salt c) = Inr salt \<longrightarrow>
           posted (snd (authenticate env usr reuse s))
             = posted s @
               [\<lparr>action = Hash2i,
                 hash_body = \<lparr>hash_password = password usr, hash_salt = salt,
                              hash_timeCost = timeCost (challenge_hashParams c),
                              hash_memoryCost = memoryCost (challenge_hashParams c),
                              hash_threads = threads (challenge_hashParams c),
                              hashLen = 32\<rparr>\<rparr>]
         \<and> (code (worker_reply env
                 \<lparr>action = Hash2i,
                  hash_body = \<lparr>hash_password = password usr, hash_salt = salt,
                               hash_timeCost = timeCost (challenge_hashParams c),
                               hash_memoryCost = memoryCost (challenge_hashParams c),
                               hash_threads = threads (challenge_hashParams c),
                               hashLen = 32\<rparr>\<rparr>) = ARGON2_OK \<longrightarrow>
              authKeyMaterial (snd (authenticate env usr reuse s))
                = response_body (worker_reply env
                    \<lparr>action = Hash2i,
                     hash_body = \<lparr>hash_password = password usr, hash_salt = salt,
                                  hash_timeCost = timeCost (challenge_hashParams c),
                                  hash_memoryCost = memoryCost (challenge_hashParams c),
                                  hash_threads = threads (challenge_hashParams c),
                                  hashLen = 32\<rparr>\<rparr>)))"
proof -
  have "case authenticate_solve env usr reuse res s1 of (r, s') \<Rightarrow>
     hashParams s' = challenge_hashParams c
     \<and> (reuse \<longrightarrow> posted s' = posted s1 \<and> authKeyMaterial s' = authKeyMaterial s1)
     \<and> (\<forall>salt. \<not> reuse \<and> decode env (challenge_salt c) = Inr salt \<longrightarrow>
           posted s' = posted s1 @ [Hash2i_request (challenge_hashParams c) (password usr) salt]
         \<and> (code (worker_reply env (Hash2i_request (challenge_hashParams c) (password usr) salt))
               = ARGON2_OK \<longrightarrow>
              authKeyMaterial s'
                = response_body (worker_reply env
                    (Hash2i_request (challenge_hashParams c) (password usr) salt))))" for s1
    using assms(2,3)
    by (cases reuse)
       (simp_all add: authenticate_solve_def exec Let_def as_Challenge_def split: sum.split)
  from this [of "snd (authenticate_request env usr s)"] assms(1) show ?thesis
    by (cases reuse)
       (simp_all add: authenticate_split authenticate_request_def exec Let_def
          Hash2i_request_fields split: prod.splits)
qed

theorem authenticate_adopts_challenge_parameters_witness:
  "hashParams (snd (authenticate (sample_env (sample_server 201 200)) alice False fresh_world))
     = \<lparr>hp_type = ''argon2i'', timeCost = 3, memoryCost = 4096, threads = 2, saltLen = 16\<rparr>
   \<and> posted (snd (authenticate (sample_env (sample_server 201 200)) alice False fresh_world))
     = [\<lparr>action = Hash2i,
         hash_body = \<lparr>hash_password = ''correct horse'',
                      hash_salt = map (\<lambda>c. of_nat (of_char c)) ''saltsaltsaltsalt'',
                      hash_timeCost = 3, hash_memoryCost = 4096, hash_threads = 2,
                      hashLen = 32\<rparr>\<rparr>]
   \<and> authKeyMaterial (snd (authenticate (sample_env (sample_server 201 200)) alice False fresh_world))
     = Some (replicate 32 13)
   \<and> posted (snd (authenticate (sample_env (sample_server 201 200)) alice True fresh_world)) = []
   \<and> authKeyMaterial (snd (authenticate (sample_env (sample_server 201 200)) alice True fresh_world))
     = None"
proof -
  let ?env = "sample_env (sample_server 201 200)"
  have a: "fst (authenticate_request ?env alice fresh_world)
             = Inr \<lparr>status = 201, json = JChallenge sample_challenge\<rparr>"
    by (simp add: sample_eval)
  have b: "status \<lparr>status = 201, json = JChallenge sample_challenge\<rparr> = 201"
    and c: "json \<lparr>status = 201, json = JChallenge sample_challenge\<rparr> = JChallenge sample_challenge"
    by simp_all
  have d: "decode ?env (challenge_salt sample_challenge)
             = Inr (map (\<lambda>c. of_nat (of_char c)) ''saltsaltsaltsalt'')"
    by (simp add: sample_env_def sample_challenge_def)
  note f = authenticate_adopts_challenge_parameters [OF a b c, of False]
  note t = authenticate_adopts_challenge_parameters [OF a b c, of True]
  from f have 1: "hashParams (snd (authenticate ?env alice False fresh_world))
        = \<lparr>hp_type = ''argon2i'', timeCost = 3, memoryCost = 4096, threads = 2, saltLen = 16\<rparr>"
    by (simp add: sample_challenge_def)
  note g = f [THEN conjunct2, THEN conjunct2, rule_format, OF conjI [OF _ d]]
  from g have 2: "posted (snd (authenticate ?env alice False fresh_world))
     = [\<lparr>action = Hash2i,
         hash_body = \<lparr>hash_password = ''correct horse'',
                      hash_salt = map (\<lambda>c. of_nat (of_char c)) ''saltsaltsaltsalt'',
                      hash_timeCost = 3, hash_memoryCost = 4096, hash_threads = 2,
                      hashLen = 32\<rparr>\<rparr>]"
    by (simp add: sample_challenge_def fresh_world_def alice_def)
  from g have 3: "authKeyMaterial (snd (authenticate ?env alice False fresh_world))
     = Some (replicate 32 13)"
    by (simp add: sample_challenge_def fresh_world_def alice_def sample_env_def ARGON2_OK_def)
  from t [THEN conjunct2, THEN conjunct1]
  have 4: "posted (snd (authenticate ?env alice True fresh_world)) = []
           \<and> authKeyMaterial (snd (authenticate ?env alice True fresh_world)) = None"
    by (simp add: fresh_world_def)
  from 1 2 3 4 show ?thesis by simp
qed

text \<open>
  Claim C4. On a run that gets as far as decrypting (the challenge has arrived, its salt
  and data decode, the key material is there and imports), the calls made to
  \<open>crypto.subtle\<close> are two: the import of the key material as a raw, non-extractable,
  decrypt-only \<open>AES-CTR\<close> key, and one \<open>AES-CTR\<close> decryption under that key whose counter is
  the first 16 bytes of the decoded challenge data and whose input is the rest. The two
  parts make up the data, and the counter has 16 bytes whenever the data has that many.
\<close>

theorem authenticate_decrypts_challenge:
  assumes "fst (authenticate_request env usr s) = Inr res" and "status res = 201"
    and "json res = JChallenge c"
    and "decode env (challenge_salt c) = Inr salt"
    and "reuse \<or> code (worker_reply env
            (Hash2i_request (challenge_hashParams c) (password usr) salt)) = ARGON2_OK"
    and "material = (if reuse then authKeyMaterial s
                     else response_body (worker_reply env
                            (Hash2i_request (challenge_hashParams c) (password usr) salt)))"
    and "importKey env ''raw'' material ''AES-CTR'' False [''decrypt''] = Inr authKey"
    and "decode env (challenge_data c) = Inr challengeData"
  shows "subtle_calls (snd (authenticate env usr reuse s))
           = subtle_calls s @
             [ImportKey ''raw'' material ''AES-CTR'' False [''decrypt''],
              Decrypt \<lparr>ctr_name = ''AES-CTR'', counter = take 16 challengeData, ctr_length = 64\<rparr>
                authKey (drop 16 challengeData)]
       \<and> take 16 challengeData @ drop 16 challengeData = challengeData
       \<and> (16 \<le> length challengeData \<longrightarrow> length (take 16 challengeData) = 16)"
proof -
  let ?s1 = "snd (authenticate_request env usr s)"
  have "subtle_calls (snd (authenticate_solve env usr reuse res ?s1))
          = subtle_calls ?s1 @
             [ImportKey ''raw'' material ''AES-CTR'' False [''decrypt''],
              Decrypt \<lparr>ctr_name = ''AES-CTR'', counter = take 16 challengeData, ctr_length = 64\<rparr>
                authKey (drop 16 challengeData)]"
    using assms(2-8) authenticate_request_keeps(2) [of env usr s]
    by (cases reuse)
       (simp_all add: authenticate_solve_def exec Let_def as_Challenge_def split: sum.split)
  with assms(1) show ?thesis
    by (simp add: authenticate_after_request authenticate_request_keeps)
qed

theorem authenticate_decrypts_challenge_witness:
  "subtle_calls (snd (authenticate (sample_env (sample_server 201 200)) alice False fresh_world))
     = [ImportKey ''raw'' (Some (replicate 32 13)) ''AES-CTR'' False [''decrypt''],
        Decrypt \<lparr>ctr_name = ''AES-CTR'',
                 counter = map (\<lambda>c. of_nat (of_char c)) ''0123456789abcdef'',
                 ctr_length = 64\<rparr>
          (CryptoKey 32) (map (\<lambda>c. of_nat (of_char c)) ''PAYLOAD'')]"
proof -
  let ?env = "sample_env (sample_server 201 200)"
  let ?material = "if False then authKeyMaterial fresh_world
                   else response_body (worker_reply ?env
                          (Hash2i_request (challenge_hashParams sample_challenge)
                             (password alice) (map (\<lambda>c. of_nat (of_char c)) ''saltsaltsaltsalt'')))"
  have a: "fst (authenticate_request ?env alice fresh_world)
             = Inr \<lparr>status = 201, json = JChallenge sample_challenge\<rparr>"
    by (simp add: sample_eval)
  have b: "status \<lparr>status = 201, json = JChallenge sample_challenge\<rparr> = 201"
    and c: "json \<lparr>status = 201, json = JChallenge sample_challenge\<rparr> = JChallenge sample_challenge"
    by simp_all
  have d: "decode ?env (challenge_salt sample_challenge)
             = Inr (map (\<lambda>c. of_nat (of_char c)) ''saltsaltsaltsalt'')"
    by (simp add: sample_env_def sample_challenge_def)
  have e: "False \<or> code (worker_reply ?env
             (Hash2i_request (challenge_hashParams sample_challenge) (password alice)
                (map (\<lambda>c. of_nat (of_char c)) ''saltsaltsaltsalt''))) = ARGON2_OK"
    by (simp add: sample_env_def ARGON2_OK_def)
  have g: "importKey ?env ''raw'' ?material ''AES-CTR'' False [''decrypt''] = Inr (CryptoKey 32)"
    by (simp add: sample_env_def Hash2i_request_def AUTHKEY_SIZE_def)
  have h: "decode ?env (challenge_data sample_challenge)
             = Inr (map (\<lambda>c. of_nat (of_char c)) ''0123456789abcdefPAYLOAD'')"
    by (simp add: sample_env_def sample_challenge_def)
  from authenticate_decrypts_challenge [OF a b c d e refl g h, THEN conjunct1]
  show ?thesis
    by (simp add: fresh_world_def sample_env_def Hash2i_request_def AUTHKEY_SIZE_def alice_def)
qed

text \<open>
  Claim C10. With key reuse, a run that has received a challenge and decoded its salt
  reaches the key import, and what it imports is the material stored in the object when
  \<open>authenticate\<close> was called: stored material goes in as it is, and where nothing was
  stored the import is called with \<open>null\<close>.
\<close>

theorem authenticate_reuse_imports_stored_key:
  assumes "fst (authenticate_request env usr s) = Inr res" and "status res = 201"
    and "json res = JChallenge c"
    and "decode env (challenge_salt c) = Inr salt"
  shows "\<exists>rest. subtle_calls (snd (authenticate env usr True s))
           = subtle_calls s @ ImportKey ''raw'' (authKeyMaterial s) ''AES-CTR'' False [''decrypt''] # rest"
proof -
  have "case authenticate_solve env usr True res s1 of (r, s') \<Rightarrow>
          \<exists>rest. subtle_calls s'
            = subtle_calls s1 @ ImportKey ''raw'' (authKeyMaterial s1) ''AES-CTR'' False [''decrypt''] # rest" for s1
    using assms(2-4)
    by (simp add: authenticate_solve_def exec Let_def as_Challenge_def split: sum.split)
  from this [of "snd (authenticate_request env usr s)"] assms(1) show ?thesis
    by (simp add: authenticate_after_request authenticate_request_keeps split: prod.splits)
qed

theorem authenticate_reuse_imports_stored_key_witness:
  "hd (subtle_calls (snd (authenticate (sample_env (sample_server 201 200)) alice True fresh_world)))
     = ImportKey ''raw'' None ''AES-CTR'' False [''decrypt'']
   \<and> hd (subtle_calls (snd (authenticate (sample_env (sample_server 201 200)) alice True
           (fresh_world\<lparr>authKeyMaterial := Some (replicate 32 13)\<rparr>))))
     = ImportKey ''raw'' (Some (replicate 32 13)) ''AES-CTR'' False [''decrypt'']"
proof -
  let ?env = "sample_env (sample_server 201 200)"
  let ?w = "fresh_world\<lparr>authKeyMaterial := Some (replicate 32 13)\<rparr>"
  have a: "fst (authenticate_request ?env alice fresh_world)
             = Inr \<lparr>status = 201, json = JChallenge sample_challenge\<rparr>"
    by (simp add: sample_eval)
  have a': "fst (authenticate_request ?env alice ?w)
             = Inr \<lparr>status = 201, json = JChallenge sample_challenge\<rparr>"
    by (simp add: sample_eval)
  have b: "status \<lparr>status = 201, json = JChallenge sample_challenge\<rparr> = 201"
    and c: "json \<lparr>status = 201, json = JChallenge sample_challenge\<rparr> = JChallenge sample_challenge"
    by simp_all
  have d: "decode ?env (challenge_salt sample_challenge)
             = Inr (map (\<lambda>c. of_nat (of_char c)) ''saltsaltsaltsalt'')"
    by (simp add: sample_env_def sample_challenge_def)
  from authenticate_reuse_imports_stored_key [OF a b c d]
       authenticate_reuse_imports_stored_key [OF a' b c d]
  show ?thesis
    by (auto simp add: fresh_world_def)
qed

section \<open>Hash requests\<close>

lemma authenticate_posts:
  "case authenticate env usr reuse s of (r, s') \<Rightarrow>
     \<exists>new. posted s' = posted s @ new \<and> (\<forall>q\<in>set new. hashLen (hash_body q) = 32)"
  by (cases reuse)
     (simp_all add: authenticate_def authenticate_request_def authenticate_solve_def exec
        Let_def Hash2i_request_def AUTHKEY_SIZE_def split: sum.split)

lemma authenticate_reuse_posts:
  "posted (snd (authenticate env usr True s)) = posted s"
  by (simp add: authenticate_def authenticate_request_def authenticate_solve_def exec
        Let_def split: sum.split)

lemma register_account_posts:
  "posted (snd (register_account env usr salt s))
     = posted s @ [Hash2i_request (hashParams s) (password usr) salt]"
  by (simp add: register_account_def exec Let_def split: sum.split)

lemma register_posts:
  "posted (settled (register env usr salt s))
     = posted s @ [Hash2i_request (hashParams s) (password usr) salt]"
  by (simp add: register_def authenticate_reuse_posts register_account_posts
        split: prod.split sum.split)
     (metis register_account_posts snd_conv)

lemma generateMasterKeypair_posts:
  "posted (snd (generateMasterKeypair env pw salt keysize s))
     = posted s @ [Hash2i_request (hashParams s) pw salt]"
  by (simp add: generateMasterKeypair_def exec Let_def split: sum.split option.split prod.split)

lemma retrieveMasterKeypair_posts:
  "case retrieveMasterKeypair env pw s of (r, s') \<Rightarrow>
     \<exists>new. posted s' = posted s @ new \<and> (\<forall>q\<in>set new. hashLen (hash_body q) = 32)"
  by (simp add: retrieveMasterKeypair_def exec Let_def Hash2i_request_def AUTHKEY_SIZE_def
        split: sum.split)

text \<open>
  Claim C8. The request \<open>hashPassword\<close> posts asks for 32 bytes, and so does every hash
  request posted in a run of \<open>authenticate\<close>, of \<open>register\<close> (the login it leaves behind
  included), of \<open>generateMasterKeypair\<close> and of \<open>retrieveMasterKeypair\<close>.
\<close>

theorem hash_length_is_32:
  "hashLen (hash_body (Hash2i_request params pw salt)) = 32
   \<and> posted (snd (hashPassword env pw salt s)) = posted s @ [Hash2i_request (hashParams s) pw salt]
   \<and> (\<exists>new. posted (snd (authenticate env usr reuse s)) = posted s @ new
         \<and> (\<forall>q\<in>set new. hashLen (hash_body q) = 32))
   \<and> (\<exists>new. posted (settled (register env usr salt s)) = posted s @ new
         \<and> (\<forall>q\<in>set new. hashLen (hash_body q) = 32))
   \<and> (\<exists>new. posted (snd (generateMasterKeypair env pw salt keysize s)) = posted s @ new
         \<and> (\<forall>q\<in>set new. hashLen (hash_body q) = 32))
   \<and> (\<exists>new. posted (snd (retrieveMasterKeypair env pw s)) = posted s @ new
         \<and> (\<forall>q\<in>set new. hashLen (hash_body q) = 32))"
proof -
  have len: "hashLen (hash_body (Hash2i_request p w x)) = 32" for p w x
    by (simp add: Hash2i_request_def AUTHKEY_SIZE_def)
  have hp: "posted (snd (hashPassword env pw salt s)) = posted s @ [Hash2i_request (hashParams s) pw salt]"
    by (simp add: hashPassword_run)
  have a: "\<exists>new. posted (snd (authenticate env usr reuse s)) = posted s @ new
         \<and> (\<forall>q\<in>set new. hashLen (hash_body q) = 32)"
    using authenticate_posts [where env=env and usr=usr and reuse=reuse and s=s] by (simp add: case_prod_beta)
  have r: "\<exists>new. posted (settled (register env usr salt s)) = posted s @ new
         \<and> (\<forall>q\<in>set new. hashLen (hash_body q) = 32)"
    by (simp add: register_posts len)
  have g: "\<exists>new. posted (snd (generateMasterKeypair env pw salt keysize s)) = posted s @ new
         \<and> (\<forall>q\<in>set new. hashLen (hash_body q) = 32)"
    by (simp add: generateMasterKeypair_posts len)
  have k: "\<exists>new. posted (snd (retrieveMasterKeypair env pw s)) = posted s @ new
         \<and> (\<forall>q\<in>set new. hashLen (hash_body q) = 32)"
    using retrieveMasterKeypair_posts [where env=env and pw=pw and s=s] by (simp add: case_prod_beta)
  from len hp a r g k show ?thesis by blast
qed

theorem hash_length_is_32_witness:
  "map (\<lambda>q. hashLen (hash_body q))
     (posted (snd (authenticate (sample_env (sample_server 201 200)) alice False fresh_world))) = [32]
   \<and> map (\<lambda>q. hashLen (hash_body q))
     (posted (snd (retrieveMasterKeypair (sample_env (sample_server 201 200)) ''correct horse''
                     signed_in_world))) = [32]"
proof -
  let ?env = "sample_env (sample_server 201 200)"
  let ?A = "posted (snd (authenticate ?env alice False fresh_world))"
  let ?K = "posted (snd (retrieveMasterKeypair ?env ''correct horse'' signed_in_world))"
  note h = hash_length_is_32 [where env = ?env and s = fresh_world and usr = alice
             and reuse = False, THEN conjunct2, THEN conjunct2, THEN conjunct1]
  note h' = hash_length_is_32 [where env = ?env and s = signed_in_world
             and pw = "''correct horse''", THEN conjunct2, THEN conjunct2, THEN conjunct2,
             THEN conjunct2, THEN conjunct2]
  have lenA: "length ?A = 1" by (simp add: sample_eval)
  have lenK: "length ?K = 1" by (simp add: sample_eval)
  from h obtain new where "?A = posted fresh_world @ new" "\<forall>q\<in>set new. hashLen (hash_body q) = 32"
    by blast
  with lenA have A: "map (\<lambda>q. hashLen (hash_body q)) ?A = [32]"
    by (cases new) (auto simp add: fresh_world_def)
  from h' obtain new' where "?K = posted signed_in_world @ new'"
      "\<forall>q\<in>set new'. hashLen (hash_body q) = 32"
    by blast
  with lenK have K: "map (\<lambda>q. hashLen (hash_body q)) ?K = [32]"
    by (cases new') (auto simp add: fresh_world_def signed_in_world_def)
  from A K show ?thesis by simp
qed

section \<open>Registration\<close>

lemma register_account_world:
  "fst (register_account env usr salt s) = Inr u \<Longrightarrow>
     (\<exists>res response saltAndKey.
        ABconcat env salt (response_body (worker_reply env
            (Hash2i_request (hashParams s) (password usr) salt))) = Inr saltAndKey
      \<and> server env (last (sent (snd (register_account env usr salt s)))) = Inr res
      \<and> status res = 201 \<and> json res = JChallengeResponse response
      \<and> sent (snd (register_account env usr salt s)) = sent s @
           [\<lparr>url = route env ''/register'', http_method = ''POST'',
             headers = [(''Content-Type'', ''application/json'')], credentials = None,
             body = Some (RegisterRequestBody
                      \<lparr>register_email = email usr, register_key = encode env saltAndKey,
                       register_hashParams = (hashParams s)\<lparr>saltLen := length salt\<rparr>\<rparr>)\<rparr>]
      \<and> userStore (snd (register_account env usr salt s))
           = \<lparr>user = \<lparr>user_email = email usr, user_id = response_id response\<rparr>, isLoggedIn = True\<rparr>
      \<and> localStorage (snd (register_account env usr salt s)) CSRF_TOKEN_KEY
           = Some (CSRFtoken response))
   \<and> authKeyMaterial (snd (register_account env usr salt s))
        = response_body (worker_reply env (Hash2i_request (hashParams s) (password usr) salt))"
proof -
  have "case register_account env usr salt s of (r, s') \<Rightarrow>
     (\<exists>u. r = Inr u) \<longrightarrow>
     (\<exists>res response saltAndKey.
        ABconcat env salt (response_body (worker_reply env
            (Hash2i_request (hashParams s) (password usr) salt))) = Inr saltAndKey
      \<and> server env (last (sent s')) = Inr res
      \<and> status res = 201 \<and> json res = JChallengeResponse response
      \<and> sent s' = sent s @
           [\<lparr>url = route env ''/register'', http_method = ''POST'',
             headers = [(''Content-Type'', ''application/json'')], credentials = None,
             body = Some (RegisterRequestBody
                      \<lparr>register_email = email usr, register_key = encode env saltAndKey,
                       register_hashParams = (hashParams s)\<lparr>saltLen := length salt\<rparr>\<rparr>)\<rparr>]
      \<and> userStore s'
           = \<lparr>user = \<lparr>user_email = email usr, user_id = response_id response\<rparr>, isLoggedIn = True\<rparr>
      \<and> localStorage s' CSRF_TOKEN_KEY = Some (CSRFtoken response))
   \<and> authKeyMaterial s'
        = response_body (worker_reply env (Hash2i_request (hashParams s) (password usr) salt))"
    by (auto simp add: register_account_def exec Let_def as_ChallengeResponse_def
          split: sum.split json.split)
  then show "fst (register_account env usr salt s) = Inr u \<Longrightarrow> ?thesis"
    by (simp add: case_prod_beta)
qed


lemma register_returned: "returned (register env usr salt s) = fst (register_account env usr salt s)"
  by (simp add: register_def split: prod.split sum.split)

lemma register_success:
  assumes "fst (register_account env usr salt s) = Inr u"
  shows "register env usr salt s =
          \<lparr>returned = Inr (),
           at_return = snd (authenticate_request env usr (snd (register_account env usr salt s))),
           detached = Some (fst (authenticate env usr True (snd (register_account env usr salt s)))),
           settled = snd (authenticate env usr True (snd (register_account env usr salt s)))\<rparr>"
proof -
  from assms obtain s1 where "register_account env usr salt s = (Inr u, s1)"
    by (cases "register_account env usr salt s") simp
  then show ?thesis
    by (simp add: register_def)
qed

lemma register_account_subtle:
  "subtle_calls (snd (register_account env usr salt s)) = subtle_calls s"
  by (simp add: register_account_def exec Let_def split: sum.split)

text \<open>
  Claim C6. A run of \<open>register\<close>, the login it leaves behind included, posts exactly one
  hash request, written out below: the user's password, the caller's salt, the object's
  cost parameters. When \<open>register\<close> returns normally, the material the worker returned for
  that request is stored in the object, the account has been created with the salt and
  that material, the user and the token the server returned are stored, and the login
  left behind is \<open>authenticate\<close> with key reuse: it posts nothing, and once it has a
  challenge and the challenge's salt decoded, the key it imports is that same material.
\<close>

theorem register_derives_key_once:
  "posted (settled (register env usr salt s))
     = posted s @
       [\<lparr>action = Hash2i,
         hash_body = \<lparr>hash_password = password usr, hash_salt = salt,
                      hash_timeCost = timeCost (hashParams s),
                      hash_memoryCost = memoryCost (hashParams s),
                      hash_threads = threads (hashParams s),
                      hashLen = 32\<rparr>\<rparr>]
   \<and> (returned (register env usr salt s) = Inr () \<longrightarrow>
        authKeyMaterial (snd (register_account env usr salt s))
          = response_body (worker_reply env
              \<lparr>action = Hash2i,
               hash_body = \<lparr>hash_password = password usr, hash_salt = salt,
                            hash_timeCost = timeCost (hashParams s),
                            hash_memoryCost = memoryCost (hashParams s),
                            hash_threads = threads (hashParams s),
                            hashLen = 32\<rparr>\<rparr>)
      \<and> (\<exists>res response saltAndKey.
            ABconcat env salt (authKeyMaterial (snd (register_account env usr salt s)))
              = Inr saltAndKey
          \<and> server env (last (sent (snd (register_account env usr salt s)))) = Inr res
          \<and> status res = 201 \<and> json res = JChallengeResponse response
          \<and> sent (snd (register_account env usr salt s)) = sent s @
               [\<lparr>url = route env ''/register'', http_method = ''POST'',
                 headers = [(''Content-Type'', ''application/json'')], credentials = None,
                 body = Some (RegisterRequestBody
                          \<lparr>register_email = email usr, register_key = encode env saltAndKey,
                           register_hashParams = (hashParams s)\<lparr>saltLen := length salt\<rparr>\<rparr>)\<rparr>]
          \<and> userStore (snd (register_account env usr salt s))
               = \<lparr>user = \<lparr>user_email = email usr, user_id = response_id response\<rparr>,
                  isLoggedIn = True\<rparr>
          \<and> localStorage (snd (register_account env usr salt s)) CSRF_TOKEN_KEY
               = Some (CSRFtoken response))
      \<and> detached (register env usr salt s)
          = Some (fst (authenticate env usr True (snd (register_account env usr salt s))))
      \<and> settled (register env usr salt s)
          = snd (authenticate env usr True (snd (register_account env usr salt s)))
      \<and> posted (settled (register env usr salt s))
          = posted (snd (register_account env usr salt s))
      \<and> (\<forall>res c challengeSalt.
            fst (authenticate_request env usr (snd (register_account env usr salt s))) = Inr res
          \<and> status res = 201 \<and> json res = JChallenge c
          \<and> decode env (challenge_salt c) = Inr challengeSalt \<longrightarrow>
            (\<exists>rest. subtle_calls (settled (register env usr salt s))
               = subtle_calls s @
                 ImportKey ''raw''
                   (response_body (worker_reply env
                      \<lparr>action = Hash2i,
                       hash_body = \<lparr>hash_password = password usr, hash_salt = salt,
                                    hash_timeCost = timeCost (hashParams s),
                                    hash_memoryCost = memoryCost (hashParams s),
                                    hash_threads = threads (hashParams s),
                                    hashLen = 32\<rparr>\<rparr>))
                   ''AES-CTR'' False [''decrypt''] # rest)))"
proof (intro conjI impI allI)
  let ?s1 = "snd (register_account env usr salt s)"
  show "posted (settled (register env usr salt s))
     = posted s @
       [\<lparr>action = Hash2i,
         hash_body = \<lparr>hash_password = password usr, hash_salt = salt,
                      hash_timeCost = timeCost (hashParams s),
                      hash_memoryCost = memoryCost (hashParams s),
                      hash_threads = threads (hashParams s),
                      hashLen = 32\<rparr>\<rparr>]"
    by (simp add: register_posts Hash2i_request_fields)
next
  let ?s1 = "snd (register_account env usr salt s)"
  let ?material = "response_body (worker_reply env
              \<lparr>action = Hash2i,
               hash_body = \<lparr>hash_password = password usr, hash_salt = salt,
                            hash_timeCost = timeCost (hashParams s),
                            hash_memoryCost = memoryCost (hashParams s),
                            hash_threads = threads (hashParams s),
                            hashLen = 32\<rparr>\<rparr>)"
  assume "returned (register env usr salt s) = Inr ()"
  then have ok: "fst (register_account env usr salt s) = Inr ()"
    by (simp add: register_returned)
  note w = register_account_world [OF ok, unfolded Hash2i_request_fields]
  note r = register_success [OF ok]
  show key: "authKeyMaterial ?s1 = ?material"
    using w by (rule conjunct2)
  show "\<exists>res response saltAndKey.
            ABconcat env salt (authKeyMaterial ?s1) = Inr saltAndKey
          \<and> server env (last (sent ?s1)) = Inr res
          \<and> status res = 201 \<and> json res = JChallengeResponse response
          \<and> sent ?s1 = sent s @
               [\<lparr>url = route env ''/register'', http_method = ''POST'',
                 headers = [(''Content-Type'', ''application/json'')], credentials = None,
                 body = Some (RegisterRequestBody
                          \<lparr>register_email = email usr, register_key = encode env saltAndKey,
                           register_hashParams = (hashParams s)\<lparr>saltLen := length salt\<rparr>\<rparr>)\<rparr>]
          \<and> userStore ?s1
               = \<lparr>user = \<lparr>user_email = email usr, user_id = response_id response\<rparr>,
                  isLoggedIn = True\<rparr>
          \<and> localStorage ?s1 CSRF_TOKEN_KEY = Some (CSRFtoken response)"
    using w [THEN conjunct1] by (simp only: key)
  show "detached (register env usr salt s) = Some (fst (authenticate env usr True ?s1))"
    by (simp add: r)
  show "settled (register env usr salt s) = snd (authenticate env usr True ?s1)"
    by (simp add: r)
  show "posted (settled (register env usr salt s)) = posted ?s1"
    by (simp add: r authenticate_reuse_posts)
  fix res c challengeSalt
  assume "fst (authenticate_request env usr ?s1) = Inr res
          \<and> status res = 201 \<and> json res = JChallenge c
          \<and> decode env (challenge_salt c) = Inr challengeSalt"
  then have req: "fst (authenticate_request env usr ?s1) = Inr res"
    and st: "status res = 201" and js: "json res = JChallenge c"
    and dec: "decode env (challenge_salt c) = Inr challengeSalt"
    by simp_all
  from authenticate_solve_reuse_import [OF st js dec,
         of usr "snd (authenticate_request env usr ?s1)"]
  obtain rest where "subtle_calls (snd (authenticate_solve env usr True res
                        (snd (authenticate_request env usr ?s1))))
           = subtle_calls (snd (authenticate_request env usr ?s1)) @
             ImportKey ''raw'' (authKeyMaterial (snd (authenticate_request env usr ?s1)))
               ''AES-CTR'' False [''decrypt''] # rest"
    by blast
  then have "subtle_calls (settled (register env usr salt s))
               = subtle_calls s @ ImportKey ''raw'' ?material ''AES-CTR'' False [''decrypt''] # rest"
    by (simp add: r authenticate_after_request [OF req] authenticate_request_keeps
          register_account_subtle key)
  then show "\<exists>rest. subtle_calls (settled (register env usr salt s))
               = subtle_calls s @ ImportKey ''raw'' ?material ''AES-CTR'' False [''decrypt''] # rest"
    by blast
qed

theorem register_derives_key_once_witness:
  "returned (register (sample_env (sample_server 201 200)) alice sample_salt fresh_world) = Inr ()
   \<and> posted (settled (register (sample_env (sample_server 201 200)) alice sample_salt fresh_world))
       = [\<lparr>action = Hash2i,
           hash_body = \<lparr>hash_password = ''correct horse'', hash_salt = sample_salt,
                        hash_timeCost = 1, hash_memoryCost = 131072, hash_threads = 1,
                        hashLen = 32\<rparr>\<rparr>]
   \<and> detached (register (sample_env (sample_server 201 200)) alice sample_salt fresh_world)
       = Some (Inr Success)
   \<and> hd (subtle_calls (settled (register (sample_env (sample_server 201 200)) alice sample_salt
                                   fresh_world)))
       = ImportKey ''raw'' (Some (replicate 32 13)) ''AES-CTR'' False [''decrypt'']"
proof -
  let ?env = "sample_env (sample_server 201 200)"
  let ?R = "register ?env alice sample_salt fresh_world"
  let ?s1 = "snd (register_account ?env alice sample_salt fresh_world)"
  note t = register_derives_key_once [of ?env alice sample_salt fresh_world]
  have ok: "returned ?R = Inr ()"
    by (simp add: sample_eval)
  have login: "fst (authenticate ?env alice True ?s1) = Inr Success"
    by (simp add: sample_eval)
  have a: "fst (authenticate_request ?env alice ?s1)
             = Inr \<lparr>status = 201, json = JChallenge sample_challenge\<rparr>"
    by (simp add: sample_eval)
  have d: "decode ?env (challenge_salt sample_challenge)
             = Inr (map (\<lambda>c. of_nat (of_char c)) ''saltsaltsaltsalt'')"
    by (simp add: sample_env_def sample_challenge_def)
  from t [THEN conjunct1]
  have 1: "posted (settled ?R)
       = [\<lparr>action = Hash2i,
           hash_body = \<lparr>hash_password = ''correct horse'', hash_salt = sample_salt,
                        hash_timeCost = 1, hash_memoryCost = 131072, hash_threads = 1,
                        hashLen = 32\<rparr>\<rparr>]"
    by (simp add: fresh_world_def alice_def default_hashParams_def)
  note u = t [THEN conjunct2, rule_format, OF ok]
  from u login have 2: "detached ?R = Some (Inr Success)"
    by simp
  have "a \<and> b \<and> c \<and> e \<and> f \<and> g \<Longrightarrow> g" for a b c e f g by blast
  from this [OF u, rule_format, of "\<lparr>status = 201, json = JChallenge sample_challenge\<rparr>"
               sample_challenge "map (\<lambda>c. of_nat (of_char c)) ''saltsaltsaltsalt''"] a d
  have 3: "hd (subtle_calls (settled ?R))
       = ImportKey ''raw'' (Some (replicate 32 13)) ''AES-CTR'' False [''decrypt'']"
    by (auto simp add: fresh_world_def alice_def default_hashParams_def sample_env_def)
  from ok 1 2 3 show ?thesis by simp
qed

text \<open>
  Claim C9. Once the account is created and the user and the token are stored,
  \<open>register\<close> returns normally. At that moment the login it started has sent its
  challenge request and done nothing else; the user and the token are in place. How the
  login ends is the outcome of a promise nobody holds: in the sample run below it throws,
  and \<open>register\<close> has returned normally all the same.
\<close>

theorem register_returns_before_login:
  assumes "fst (register_account env usr salt s) = Inr ()"
  shows "returned (register env usr salt s) = Inr ()
     \<and> at_return (register env usr salt s)
         = snd (authenticate_request env usr (snd (register_account env usr salt s)))
     \<and> sent (at_return (register env usr salt s))
         = sent (snd (register_account env usr salt s)) @
           [\<lparr>url = route env ''/challenge?action=request'', http_method = ''POST'',
             headers = [(''Content-Type'', ''application/json'')], credentials = None,
             body = Some (ChallengeRequestBody
                      \<lparr>request_email = email usr, request_totp = totp usr\<rparr>)\<rparr>]
     \<and> (\<exists>res response.
           server env (last (sent (snd (register_account env usr salt s)))) = Inr res
         \<and> status res = 201 \<and> json res = JChallengeResponse response
         \<and> userStore (at_return (register env usr salt s))
             = \<lparr>user = \<lparr>user_email = email usr, user_id = response_id response\<rparr>,
                isLoggedIn = True\<rparr>
         \<and> localStorage (at_return (register env usr salt s)) CSRF_TOKEN_KEY
             = Some (CSRFtoken response))
     \<and> subtle_calls (at_return (register env usr salt s)) = subtle_calls s
     \<and> detached (register env usr salt s)
         = Some (fst (authenticate env usr True (snd (register_account env usr salt s))))"
proof -
  note w = register_account_world [OF assms]
  note r = register_success [OF assms]
  have sub: "subtle_calls (snd (register_account env usr salt s)) = subtle_calls s"
    by (simp add: register_account_def exec Let_def split: sum.split)
  have snt: "sent (snd (authenticate_request env usr s1)) = sent s1 @
           [\<lparr>url = route env ''/challenge?action=request'', http_method = ''POST'',
             headers = [(''Content-Type'', ''application/json'')], credentials = None,
             body = Some (ChallengeRequestBody
                      \<lparr>request_email = email usr, request_totp = totp usr\<rparr>)\<rparr>]" for s1
    by (simp add: authenticate_request_def exec Let_def split: sum.split)
  from w show ?thesis
    by (auto simp add: r authenticate_request_keeps sub snt)
qed

theorem register_returns_before_login_witness:
  "returned (register (sample_env (sample_server 500 200)) alice sample_salt fresh_world) = Inr ()
   \<and> detached (register (sample_env (sample_server 500 200)) alice sample_salt fresh_world)
       = Some (Inl (Error ''Unknown error requesting an auth challenge''))
   \<and> map url (sent (at_return (register (sample_env (sample_server 500 200)) alice sample_salt
                                   fresh_world)))
       = [''https://api.csplan.co/register'', ''https://api.csplan.co/challenge?action=request'']"
proof -
  let ?env = "sample_env (sample_server 500 200)"
  let ?R = "register ?env alice sample_salt fresh_world"
  have ok: "fst (register_account ?env alice sample_salt fresh_world) = Inr ()"
    by (simp add: sample_eval)
  have sent1: "map url (sent (snd (register_account ?env alice sample_salt fresh_world)))
                 = [''https://api.csplan.co/register'']"
    by (simp add: sample_eval)
  have login: "fst (authenticate ?env alice True (snd (register_account ?env alice sample_salt fresh_world)))
                 = Inl (Error ''Unknown error requesting an auth challenge'')"
    by (simp add: sample_eval)
  note t = register_returns_before_login [OF ok]
  from t have 1: "returned ?R = Inr ()"
    by (rule conjunct1)
  from t login have 2: "detached ?R = Some (Inl (Error ''Unknown error requesting an auth challenge''))"
    by simp
  from t [THEN conjunct2, THEN conjunct2, THEN conjunct1] sent1
  have 3: "map url (sent (at_return ?R))
       = [''https://api.csplan.co/register'', ''https://api.csplan.co/challenge?action=request'']"
    by (simp add: route_def sample_env_def)
  from 1 2 3 show ?thesis by simp
qed





section \<open>Master keypair custody\<close>

text \<open>
  Claim C3. \<open>generateMasterKeypair\<close> sends at most one request, the upload: the exported
  public key, the private key as wrapped under the temp key derived from the password and
  the salt, the encoded salt and the cost parameters. \<open>retrieveMasterKeypair\<close> sends one
  request, a \<open>GET\<close> without a body. The private key itself, as generated or as unwrapped,
  goes into the local \<open>keys\<close> store under the id of the user in the user store, and only
  when the call returns normally. (Requests carry strings only; key objects occur in the
  local store and nowhere else in what these two functions write.)
\<close>

theorem private_key_leaves_only_wrapped:
  assumes G: "generateMasterKeypair env pw salt keysize s = (r, s')"
    and K: "retrieveMasterKeypair env pw' t = (r', t')"
  shows "(sent s' = sent s \<or>
            (\<exists>publicKey privateKey tempKey exported wrapped token.
               rsa_generateKeypair env keysize = Inr (publicKey, privateKey)
             \<and> aes_importKeyMaterial env
                 (response_body (worker_reply env (Hash2i_request (hashParams s) pw salt))) AES_GCM
                 = Inr tempKey
             \<and> rsa_exportPublicKey env publicKey = Inr exported
             \<and> rsa_wrapPrivateKey env privateKey tempKey = Inr wrapped
             \<and> localStorage s CSRF_TOKEN_KEY = Some token
             \<and> sent s' = sent s @
                 [\<lparr>url = route env ''/keys'', http_method = ''POST'',
                   headers = [(''Content-Type'', ''application/json''), (''CSRF-Token'', token)],
                   credentials = Some ''include'',
                   body = Some (MasterKeysBody
                            \<lparr>keys_publicKey = exported, keys_privateKey = wrapped,
                             keys_hashSalt = encode env salt, keys_hashParams = hashParams s\<rparr>)\<rparr>]))
       \<and> (r = Inr () \<longrightarrow>
            (\<exists>publicKey privateKey.
               rsa_generateKeypair env keysize = Inr (publicKey, privateKey)
             \<and> idb s' = (idb s)((''keys'', user_id (user (userStore s))) \<mapsto>
                          \<lparr>entry_id = user_id (user (userStore s)),
                           entry_publicKey = publicKey, entry_privateKey = privateKey\<rparr>)))
       \<and> ((\<exists>e. r = Inl e) \<longrightarrow> idb s' = idb s)
       \<and> sent t' = sent t @
             [\<lparr>url = route env ''/keys'', http_method = ''GET'',
               headers = [(''Content-Type'', ''application/json''),
                          (''CSRF-Token'', header_value (localStorage t CSRF_TOKEN_KEY))],
               credentials = Some ''include'', body = None\<rparr>]
       \<and> (r' = Inr () \<longrightarrow>
            (\<exists>res keys publicKey salt tempKey privateKey.
               server env (last (sent t')) = Inr res \<and> json res = JMasterKeys keys
             \<and> rsa_importPublicKey env (keys_publicKey keys) = Inr publicKey
             \<and> decode env (keys_hashSalt keys) = Inr salt
             \<and> aes_importKeyMaterial env
                 (response_body (worker_reply env (Hash2i_request (keys_hashParams keys) pw' salt)))
                 AES_GCM = Inr tempKey
             \<and> rsa_unwrapPrivateKey env (keys_privateKey keys) tempKey = Inr privateKey
             \<and> idb t' = (idb t)((''keys'', user_id (user (userStore t))) \<mapsto>
                          \<lparr>entry_id = user_id (user (userStore t)),
                           entry_publicKey = publicKey, entry_privateKey = privateKey\<rparr>)))
       \<and> ((\<exists>e. r' = Inl e) \<longrightarrow> idb t' = idb t)"
proof -
  have g: "case generateMasterKeypair env pw salt keysize s of (r, s') \<Rightarrow>
         (sent s' = sent s \<or>
            (\<exists>publicKey privateKey tempKey exported wrapped token.
               rsa_generateKeypair env keysize = Inr (publicKey, privateKey)
             \<and> aes_importKeyMaterial env
                 (response_body (worker_reply env (Hash2i_request (hashParams s) pw salt))) AES_GCM
                 = Inr tempKey
             \<and> rsa_exportPublicKey env publicKey = Inr exported
             \<and> rsa_wrapPrivateKey env privateKey tempKey = Inr wrapped
             \<and> localStorage s CSRF_TOKEN_KEY = Some token
             \<and> sent s' = sent s @
                 [\<lparr>url = route env ''/keys'', http_method = ''POST'',
                   headers = [(''Content-Type'', ''application/json''), (''CSRF-Token'', token)],
                   credentials = Some ''include'',
                   body = Some (MasterKeysBody
                            \<lparr>keys_publicKey = exported, keys_privateKey = wrapped,
                             keys_hashSalt = encode env salt, keys_hashParams = hashParams s\<rparr>)\<rparr>]))
       \<and> (r = Inr () \<longrightarrow>
            (\<exists>publicKey privateKey.
               rsa_generateKeypair env keysize = Inr (publicKey, privateKey)
             \<and> idb s' = (idb s)((''keys'', user_id (user (userStore s))) \<mapsto>
                          \<lparr>entry_id = user_id (user (userStore s)),
                           entry_publicKey = publicKey, entry_privateKey = privateKey\<rparr>)))
       \<and> ((\<exists>e. r = Inl e) \<longrightarrow> idb s' = idb s)"
    by (simp add: generateMasterKeypair_def exec Let_def
          split: sum.split option.split prod.split)
  have k: "case retrieveMasterKeypair env pw' t of (r', t') \<Rightarrow>
         sent t' = sent t @
             [\<lparr>url = route env ''/keys'', http_method = ''GET'',
               headers = [(''Content-Type'', ''application/json''),
                          (''CSRF-Token'', header_value (localStorage t CSRF_TOKEN_KEY))],
               credentials = Some ''include'', body = None\<rparr>]
       \<and> (r' = Inr () \<longrightarrow>
            (\<exists>res keys publicKey salt tempKey privateKey.
               server env (last (sent t')) = Inr res \<and> json res = JMasterKeys keys
             \<and> rsa_importPublicKey env (keys_publicKey keys) = Inr publicKey
             \<and> decode env (keys_hashSalt keys) = Inr salt
             \<and> aes_importKeyMaterial env
                 (response_body (worker_reply env (Hash2i_request (keys_hashParams keys) pw' salt)))
                 AES_GCM = Inr tempKey
             \<and> rsa_unwrapPrivateKey env (keys_privateKey keys) tempKey = Inr privateKey
             \<and> idb t' = (idb t)((''keys'', user_id (user (userStore t))) \<mapsto>
                          \<lparr>entry_id = user_id (user (userStore t)),
                           entry_publicKey = publicKey, entry_privateKey = privateKey\<rparr>)))
       \<and> ((\<exists>e. r' = Inl e) \<longrightarrow> idb t' = idb t)"
    by (auto simp add: retrieveMasterKeypair_def exec Let_def as_MasterKeys_def
          split: sum.split json.split)
  from g [unfolded G prod.case] k [unfolded K prod.case] show ?thesis
    by (elim conjE, intro conjI) assumption+
qed

theorem private_key_leaves_only_wrapped_witness:
  "map body (sent (snd (generateMasterKeypair (sample_env (sample_server 201 200))
                          ''correct horse'' sample_salt 4096 signed_in_world)))
     = [Some (MasterKeysBody
               \<lparr>keys_publicKey = ''spki'', keys_privateKey = ''wrapped'',
                keys_hashSalt = encode (sample_env (sample_server 201 200)) sample_salt,
                keys_hashParams = default_hashParams\<rparr>)]
   \<and> idb (snd (generateMasterKeypair (sample_env (sample_server 201 200))
                  ''correct horse'' sample_salt 4096 signed_in_world)) (''keys'', ''u1'')
     = Some \<lparr>entry_id = ''u1'', entry_publicKey = CryptoKey 4096, entry_privateKey = CryptoKey 4097\<rparr>
   \<and> idb (snd (retrieveMasterKeypair (sample_env (sample_server 201 200))
                  ''correct horse'' signed_in_world)) (''keys'', ''u1'')
     = Some \<lparr>entry_id = ''u1'', entry_publicKey = CryptoKey 4, entry_privateKey = CryptoKey 7\<rparr>"
proof -
  let ?env = "sample_env (sample_server 201 200)"
  let ?G = "generateMasterKeypair ?env ''correct horse'' sample_salt 4096 signed_in_world"
  let ?K = "retrieveMasterKeypair ?env ''correct horse'' signed_in_world"
  note t = private_key_leaves_only_wrapped [OF prod.collapse [symmetric] prod.collapse [symmetric],
             of ?env "''correct horse''" sample_salt 4096 signed_in_world
                "''correct horse''" signed_in_world]
  have okG: "fst ?G = Inr ()" by (simp add: sample_eval)
  have okK: "fst ?K = Inr ()" by (simp add: sample_eval)
  have lenG: "sent (snd ?G) \<noteq> sent signed_in_world" by (simp add: sample_eval)
  have lastK: "server ?env (last (sent (snd ?K)))
                 = Inr \<lparr>status = 200,
                        json = JMasterKeys \<lparr>keys_publicKey = ''spki'', keys_privateKey = ''wrapped'',
                                 keys_hashSalt = ''wrapsalt'',
                                 keys_hashParams = default_hashParams\<rparr>\<rparr>"
    by (simp add: sample_eval)
  from t [THEN conjunct1] lenG
  have 1: "map body (sent (snd ?G))
     = [Some (MasterKeysBody
               \<lparr>keys_publicKey = ''spki'', keys_privateKey = ''wrapped'',
                keys_hashSalt = encode ?env sample_salt,
                keys_hashParams = default_hashParams\<rparr>)]"
    by (auto simp add: sample_env_def signed_in_world_def fresh_world_def)
  from t [THEN conjunct2, THEN conjunct1, rule_format, OF okG]
  have 2: "idb (snd ?G) (''keys'', ''u1'')
     = Some \<lparr>entry_id = ''u1'', entry_publicKey = CryptoKey 4096, entry_privateKey = CryptoKey 4097\<rparr>"
    by (auto simp add: sample_env_def signed_in_world_def fresh_world_def)
  from t [THEN conjunct2, THEN conjunct2, THEN conjunct2, THEN conjunct2, THEN conjunct1,
          rule_format, OF okK] lastK
  have 3: "idb (snd ?K) (''keys'', ''u1'')
     = Some \<lparr>entry_id = ''u1'', entry_publicKey = CryptoKey 4, entry_privateKey = CryptoKey 7\<rparr>"
    by (auto simp add: sample_env_def signed_in_world_def fresh_world_def)
  from 1 2 3 show ?thesis by simp
qed

end
